theory Spec2Isabelle
  imports Main
begin

section \<open>Host values: numbers, big integers, strings\<close>

text \<open>
  The engine is \<^verbatim>\<open>src/js/ZeroKnowledgeLicense.ts\<close>. Its values are modelled as follows.
  \<^item> A \<^verbatim>\<open>bigint\<close> is an \<open>int\<close>.
  \<^item> A \<^verbatim>\<open>number\<close> is a double. The model covers the runs in which every number that the
    engine is given (a tier rank, a quota, a worker count, a timestamp, a configured
    duration) is finite and integral: such a number is the \<open>int\<close> it holds, of any
    magnitude a double has. The result of an addition or a subtraction of two numbers is
    rounded as IEEE 754 rounds it (subsection Numbers), and a number is printed as
    \<^verbatim>\<open>Number.prototype.toString\<close> prints it.
  \<^item> A string is an Isabelle \<open>string\<close>, one \<open>char\<close> per code unit (code units below 256).
  \<^item> A valid \<^verbatim>\<open>Date\<close> is its time value in milliseconds, an \<open>int\<close> of magnitude at most
    \<open>8640000000000000\<close>; every clock reading is one.
  \<^item> A thrown \<^verbatim>\<open>Error\<close> is a value of type \<open>error\<close>; the constructor names the message
    (\<^verbatim>\<open>'Rate limit exceeded'\<close>, \<^verbatim>\<open>'Insufficient quota'\<close>, \<^verbatim>\<open>'Exceeds worker limit'\<close>,
    \<^verbatim>\<open>'License expired'\<close>, \<^verbatim>\<open>'Feature ... not in license'\<close>) or the built-in error class
    (\<^verbatim>\<open>RangeError\<close> of \<^verbatim>\<open>BigInt(NaN)\<close>, \<^verbatim>\<open>SyntaxError\<close> of \<^verbatim>\<open>BigInt('0x...')\<close>).
\<close>

datatype error =
    RateLimitExceeded
  | InsufficientQuota
  | ExceedsWorkerLimit
  | LicenseExpired
  | FeatureNotLicensed
  | RangeError
  | SyntaxError

text \<open>The remainder operator \<^verbatim>\<open>%\<close> on big integers truncates towards zero: the result has
  the sign of the dividend.\<close>

definition jsRem :: "int \<Rightarrow> int \<Rightarrow> int" where
  "jsRem x m = sgn x * (\<bar>x\<bar> mod \<bar>m\<bar>)"

subsection \<open>Numbers\<close>

text \<open>The number of binary digits of a natural number.\<close>

function bitLength :: "nat \<Rightarrow> nat" where
  "bitLength n = (if n = 0 then 0 else Suc (bitLength (n div 2)))"
  by pat_completeness auto
termination
  by (relation "measure id") auto

declare bitLength.simps [simp del]

text \<open>The double nearest to a natural number: 53 binary digits are kept, a remainder of
  more than half a unit rounds up, and one of exactly half a unit rounds to the even
  neighbour.\<close>

definition roundMagnitude :: "nat \<Rightarrow> nat" where
  "roundMagnitude m =
     (if m < 2 ^ 53 then m
      else (let e = bitLength m - 53;
                q = m div 2 ^ e;
                r = m mod 2 ^ e;
                half = 2 ^ (e - 1)
            in (if half < r \<or> (r = half \<and> odd q) then q + 1 else q) * 2 ^ e))"

text \<open>The value of an arithmetic expression on numbers: a finite double, or an infinity
  when the rounded result is beyond the largest double.\<close>

datatype number = Finite int | PosInfinity | NegInfinity

definition roundDouble :: "int \<Rightarrow> number" where
  "roundDouble x =
     (let v = roundMagnitude (nat \<bar>x\<bar>)
      in if 2 ^ 1024 \<le> v then (if x < 0 then NegInfinity else PosInfinity)
         else Finite (sgn x * int v))"

text \<open>\<^verbatim>\<open>a - b\<close> on numbers.\<close>

definition numberSub :: "int \<Rightarrow> int \<Rightarrow> number" where
  "numberSub a b = roundDouble (a - b)"

text \<open>\<^verbatim>\<open>x - b\<close> and \<^verbatim>\<open>x < b\<close> where \<open>x\<close> is the value of an expression and \<open>b\<close> a number.\<close>

fun numberMinus :: "number \<Rightarrow> int \<Rightarrow> number" where
  "numberMinus (Finite a) b = roundDouble (a - b)"
| "numberMinus PosInfinity b = PosInfinity"
| "numberMinus NegInfinity b = NegInfinity"

fun numberLess :: "number \<Rightarrow> int \<Rightarrow> bool" where
  "numberLess (Finite a) b = (a < b)"
| "numberLess PosInfinity b = False"
| "numberLess NegInfinity b = True"

text \<open>\<^verbatim>\<open>x > b\<close>.\<close>

fun numberGreater :: "number \<Rightarrow> int \<Rightarrow> bool" where
  "numberGreater (Finite a) b = (b < a)"
| "numberGreater PosInfinity b = True"
| "numberGreater NegInfinity b = False"

text \<open>\<^verbatim>\<open>BigInt(x)\<close> of a number: a \<^verbatim>\<open>RangeError\<close> for an infinity.\<close>

fun toBigInt :: "number \<Rightarrow> error + int" where
  "toBigInt (Finite a) = Inr a"
| "toBigInt PosInfinity = Inl RangeError"
| "toBigInt NegInfinity = Inl RangeError"

text \<open>\<^verbatim>\<open>a + b\<close> on numbers, for the sums of the engine: one operand is a clock reading or
  1, so the rounded sum is finite.\<close>

definition numberAdd :: "int \<Rightarrow> int \<Rightarrow> int" where
  "numberAdd a b = sgn (a + b) * int (roundMagnitude (nat \<bar>a + b\<bar>))"

subsection \<open>Printing\<close>

definition hexDigit :: "nat \<Rightarrow> char" where
  "hexDigit d = ''0123456789abcdef'' ! d"

function toHexNat :: "nat \<Rightarrow> string" where
  "toHexNat n = (if n < 16 then [hexDigit n] else toHexNat (n div 16) @ [hexDigit (n mod 16)])"
  by pat_completeness auto
termination
  by (relation "measure id") auto

declare toHexNat.simps [simp del]

text \<open>\<^verbatim>\<open>BigInt.prototype.toString(16)\<close>: lower-case digits, no leading zero, a minus sign
  for a negative value.\<close>

definition bigToString16 :: "int \<Rightarrow> string" where
  "bigToString16 n = (if n < 0 then CHR ''-'' # toHexNat (nat (- n)) else toHexNat (nat n))"

function toDecNat :: "nat \<Rightarrow> string" where
  "toDecNat n = (if n < 10 then [hexDigit n] else toDecNat (n div 10) @ [hexDigit (n mod 10)])"
  by pat_completeness auto
termination
  by (relation "measure id") auto

declare toDecNat.simps [simp del]

text \<open>
  \<^verbatim>\<open>Number.prototype.toString()\<close> of an integral double. Below \<open>2 ^ 53\<close> the digits are
  those of the integer. From there on they are the shortest decimal \<open>s * 10 ^ p\<close> that
  rounds to the double \<open>v\<close> (the nearest to \<open>v\<close> among the shortest, the even \<open>s\<close> of two
  equally near), followed by \<open>p\<close> zeros up to 21 digits and written with an exponent
  beyond. \<open>inRoundingInterval v c\<close> says that \<open>c\<close> rounds to \<open>v\<close>: it lies within half the
  distance to the next double on either side, the end points counting when the
  53-digit significand of \<open>v\<close> is even.
\<close>

definition inRoundingInterval :: "nat \<Rightarrow> nat \<Rightarrow> bool" where
  "inRoundingInterval v c =
     (let e = bitLength v - 53;
          m = v div 2 ^ e;
          above = 2 ^ e;
          below = (if m = 2 ^ 52 then 2 ^ (e - 1) else 2 ^ e)
      in if even m then 2 * v \<le> 2 * c + below \<and> 2 * c \<le> 2 * v + above
         else 2 * v < 2 * c + below \<and> 2 * c < 2 * v + above)"

primrec shortestDigits :: "nat \<Rightarrow> nat \<Rightarrow> nat \<times> nat" where
  "shortestDigits v 0 = (v, 0)"
| "shortestDigits v (Suc p) =
     (let u = 10 ^ Suc p;
          lower = (v div u) * u;
          upper = lower + u;
          okLower = (0 < lower \<and> inRoundingInterval v lower);
          okUpper = inRoundingInterval v upper
      in if okLower \<and> okUpper
         then (if v - lower < upper - v \<or> (v - lower = upper - v \<and> even (lower div u))
               then (lower div u, Suc p) else (upper div u, Suc p))
         else if okLower then (lower div u, Suc p)
         else if okUpper then (upper div u, Suc p)
         else shortestDigits v p)"

definition positiveToString :: "nat \<Rightarrow> string" where
  "positiveToString v =
     (if v < 2 ^ 53 then toDecNat v
      else (let sp = shortestDigits v (length (toDecNat v));
                ds = toDecNat (fst sp);
                k = length ds;
                n = k + snd sp
            in if n \<le> 21 then ds @ replicate (snd sp) (CHR ''0'')
               else if k = 1 then ds @ ''e+'' @ toDecNat (n - 1)
               else hd ds # CHR ''.'' # tl ds @ ''e+'' @ toDecNat (n - 1)))"

definition numberToString :: "int \<Rightarrow> string" where
  "numberToString n =
     (if n < 0 then CHR ''-'' # positiveToString (nat (- n)) else positiveToString (nat n))"

text \<open>\<^verbatim>\<open>s.padStart(n, '0')\<close>.\<close>

definition padStart :: "nat \<Rightarrow> string \<Rightarrow> string" where
  "padStart n s = replicate (n - length s) (CHR ''0'') @ s"

text \<open>\<^verbatim>\<open>xs.join(sep)\<close> on strings.\<close>

fun joinWith :: "string \<Rightarrow> string list \<Rightarrow> string" where
  "joinWith sep [] = []"
| "joinWith sep [s] = s"
| "joinWith sep (s # t # ss) = s @ sep @ joinWith sep (t # ss)"

subsection \<open>Parsing\<close>

definition hexVal :: "char \<Rightarrow> nat option" where
  "hexVal ch = (let k = (of_char ch :: nat) in
     if 48 \<le> k \<and> k \<le> 57 then Some (k - 48)
     else if 97 \<le> k \<and> k \<le> 102 then Some (k - 87)
     else if 65 \<le> k \<and> k \<le> 70 then Some (k - 55)
     else None)"

text \<open>White space and line terminators that a numeric string may end with (those below 256).\<close>

definition isStrWhiteSpace :: "char \<Rightarrow> bool" where
  "isStrWhiteSpace ch = ((of_char ch :: nat) \<in> {9, 10, 11, 12, 13, 32, 160})"

fun hexDigitsVal :: "nat \<Rightarrow> string \<Rightarrow> nat option" where
  "hexDigitsVal acc [] = Some acc"
| "hexDigitsVal acc (ch # cs) =
     (case hexVal ch of None \<Rightarrow> None | Some d \<Rightarrow> hexDigitsVal (16 * acc + d) cs)"

text \<open>\<^verbatim>\<open>BigInt('0x' + s)\<close>: the digits of \<open>s\<close> read in base 16; a \<^verbatim>\<open>SyntaxError\<close> when \<open>s\<close>
  is not a non-empty run of hexadecimal digits (trailing white space apart).\<close>

definition hexToBigInt :: "string \<Rightarrow> error + int" where
  "hexToBigInt s =
     (let body = rev (dropWhile isStrWhiteSpace (rev s)) in
      if body = [] then Inl SyntaxError
      else case hexDigitsVal 0 body of None \<Rightarrow> Inl SyntaxError | Some n \<Rightarrow> Inr (int n))"

section \<open>Cryptographic primitives\<close>

text \<open>The point record of the source has fields \<^verbatim>\<open>x\<close> and \<^verbatim>\<open>y\<close>, the parameter record
  \<^verbatim>\<open>g1\<close>, \<^verbatim>\<open>g2\<close> and \<^verbatim>\<open>h\<close>; they carry a prefix here.\<close>

record ECPoint =
  ec_x :: int
  ec_y :: int

record CircuitParams =
  gen_g1 :: ECPoint
  gen_g2 :: ECPoint
  gen_h :: ECPoint
  fieldModulus :: int
  groupOrder :: int

text \<open>\<^verbatim>\<open>initializeCircuitParams\<close>.\<close>

definition circuitParams :: CircuitParams where
  "circuitParams = \<lparr>
     gen_g1 = \<lparr> ec_x = 1, ec_y = 2 \<rparr>,
     gen_g2 = \<lparr> ec_x = 3, ec_y = 4 \<rparr>,
     gen_h = \<lparr> ec_x = 5, ec_y = 6 \<rparr>,
     fieldModulus = 21888242871839275222246405745257275088696311157297823662689037894645226208583,
     groupOrder = 21888242871839275222246405745257275088548364400416034343698204186575808495617 \<rparr>"

text \<open>
  The hash functions come from the platform's \<^verbatim>\<open>crypto\<close> module, which is not part of the
  repository. They are parameters of the model: \<open>sha256 K s\<close> is the SHA-256 digest of
  \<open>s\<close> read as a big-endian number, \<open>hmacSha256 K key s\<close> the HMAC-SHA-256 tag likewise.
  \<^verbatim>\<open>digest('hex')\<close> prints such a number with 64 digits.
\<close>

record crypto =
  sha256 :: "string \<Rightarrow> nat"
  hmacSha256 :: "string \<Rightarrow> string \<Rightarrow> nat"

definition digestHex :: "nat \<Rightarrow> string" where
  "digestHex n = padStart 64 (toHexNat n)"

text \<open>\<^verbatim>\<open>randomBytes(n).toString('hex')\<close>, the \<open>n\<close> bytes being the big-endian digits of \<open>d\<close>.\<close>

definition randomBytesHex :: "nat \<Rightarrow> nat \<Rightarrow> string" where
  "randomBytesHex n d = padStart (2 * n) (toHexNat (d mod 256 ^ n))"

definition pedersenCommit :: "int \<Rightarrow> int \<Rightarrow> string" where
  "pedersenCommit v bl =
     (let combined = jsRem (v * ec_x (gen_g1 circuitParams) + bl * ec_x (gen_h circuitParams))
                           (fieldModulus circuitParams)
      in padStart 64 (bigToString16 combined))"

definition pedersenVerify :: "int \<Rightarrow> int \<Rightarrow> int \<Rightarrow> string \<Rightarrow> error + string" where
  "pedersenVerify s1 s2 ch cm =
     (case hexToBigInt cm of
        Inl e \<Rightarrow> Inl e
      | Inr C \<Rightarrow>
          Inr (padStart 64 (bigToString16
            (jsRem (s1 * ec_x (gen_g1 circuitParams) + s2 * ec_x (gen_h circuitParams) - ch * C)
                   (fieldModulus circuitParams)))))"

text \<open>\<^verbatim>\<open>randomScalar\<close>, on the number \<open>d\<close> that the 32 random bytes spell.\<close>

definition randomScalar :: "nat \<Rightarrow> int" where
  "randomScalar d = jsRem (int (d mod 256 ^ 32)) (groupOrder circuitParams)"

definition hashToScalar :: "crypto \<Rightarrow> string \<Rightarrow> int" where
  "hashToScalar K s = jsRem (int (sha256 K s)) (groupOrder circuitParams)"

definition hashValue :: "crypto \<Rightarrow> string \<Rightarrow> string" where
  "hashValue K s = digestHex (sha256 K s)"

definition hashValues :: "crypto \<Rightarrow> string list \<Rightarrow> string" where
  "hashValues K ss = digestHex (sha256 K (concat ss))"

definition deriveSecret :: "crypto \<Rightarrow> string \<Rightarrow> string \<Rightarrow> string" where
  "deriveSecret K master purpose = digestHex (hmacSha256 K master purpose)"


section \<open>Data model\<close>

text \<open>
  The interfaces of the source become records. A field keeps its name unless the name is
  an Isabelle keyword or is shared by two interfaces: \<^verbatim>\<open>ZKProof.proof\<close> is \<open>proofBody\<close>, its
  components \<^verbatim>\<open>a\<close>, \<^verbatim>\<open>b\<close>, \<^verbatim>\<open>c\<close> are \<open>proof_a\<close>, \<open>proof_b\<close>, \<open>proof_c\<close>;
  \<^verbatim>\<open>ZKProof.commitmentId\<close> is \<open>zk_commitmentId\<close>; the fields of \<^verbatim>\<open>ProofRequest\<close>,
  \<^verbatim>\<open>VerificationResult\<close>, \<^verbatim>\<open>TierLimits\<close> and \<^verbatim>\<open>blindingFactors\<close> that clash carry the
  prefixes \<open>req_\<close>, \<open>vr_\<close>, \<open>tl_\<close> and \<open>bf_\<close>. An optional field is an \<open>option\<close>.
  The configuration fields \<^verbatim>\<open>curve\<close> and \<^verbatim>\<open>securityLevel\<close> are only ever passed to
  event listeners and are left out, as is the event emitter.
\<close>

datatype LicenseTier = Trial | Starter | Professional | Enterprise | Unlimited

datatype ProofType =
    LicenseOwnership
  | TierMembership
  | FeatureAccess
  | UsageQuota
  | TimeValidity
  | WorkerAllocation

record LicenseCommitment =
  commitmentId :: string
  commitment :: string
  tierCommitment :: string
  expirationCommitment :: string
  featureMerkleRoot :: string
  createdAt :: int
  verificationKeyHash :: string

record ProofTriple =
  proof_a :: "string \<times> string"
  proof_b :: "(string \<times> string) \<times> (string \<times> string)"
  proof_c :: "string \<times> string"

record ZKProof =
  proofId :: string
  timestamp :: int
  proofType :: ProofType
  proofBody :: ProofTriple
  publicInputs :: "string list"
  zk_commitmentId :: string
  verified :: bool
  verifiedAt :: "int option"
  nonce :: string
  challenge :: string

record MerkleProof =
  leaf :: string
  path :: "string list"
  indices :: "nat list"

record WitnessData =
  tier :: LicenseTier
  tierValue :: int
  expirationTimestamp :: int
  maxWorkers :: int
  enabledFeatures :: "string list"
  usageQuota :: int
  usedQuota :: int
  featureMerkleProofs :: "string \<rightharpoonup> MerkleProof"

record BlindingFactors =
  bf_license :: string
  bf_tier :: string
  bf_expiration :: string
  bf_features :: "string list"

record LicenseSecret =
  licenseKey :: string
  blindingFactors :: BlindingFactors
  masterSecret :: string
  proofSecret :: string
  witnessData :: WitnessData

record ProofRequirements =
  minimumTier :: "LicenseTier option"
  requiredFeature :: "string option"
  requiredQuota :: "int option"
  requestedWorkers :: "int option"
  currentTimestamp :: "int option"

record ProofRequest =
  requestId :: string
  req_timestamp :: int
  req_proofType :: ProofType
  requirements :: ProofRequirements
  req_challenge :: string
  expiresAt :: "int option"

record ProvenClaims =
  hasValidLicense :: bool
  meetsTierRequirement :: "bool option"
  hasFeatureAccess :: "bool option"
  hasQuota :: "bool option"
  hasWorkerCapacity :: "bool option"
  isNotExpired :: "bool option"

record VerificationResult =
  valid :: bool
  vr_proofId :: string
  vr_verifiedAt :: int
  provenClaims :: ProvenClaims
  verificationTime :: int

record TierLimits =
  tl_maxWorkers :: int
  monthlyQuota :: int
  features :: "string list"

record ZeroKnowledgeLicenseConfig =
  proofExpirationMs :: int
  maxProofsPerHour :: int
  cfg_enabledFeatures :: "string list"
  tierHierarchy :: "LicenseTier \<Rightarrow> int"
  tierLimits :: "LicenseTier \<Rightarrow> TierLimits"
  verificationCacheMs :: int
  strictMode :: bool

definition defaultTierHierarchy :: "LicenseTier \<Rightarrow> int" where
  "defaultTierHierarchy t =
     (case t of Trial \<Rightarrow> 1 | Starter \<Rightarrow> 2 | Professional \<Rightarrow> 3 | Enterprise \<Rightarrow> 4 | Unlimited \<Rightarrow> 5)"

definition defaultTierLimits :: "LicenseTier \<Rightarrow> TierLimits" where
  "defaultTierLimits t =
     (case t of
        Trial \<Rightarrow> \<lparr> tl_maxWorkers = 1, monthlyQuota = 1000, features = [''basic-crawling''] \<rparr>
      | Starter \<Rightarrow> \<lparr> tl_maxWorkers = 5, monthlyQuota = 100000,
          features = [''basic-crawling'', ''stealth-mode'', ''api-access''] \<rparr>
      | Professional \<Rightarrow> \<lparr> tl_maxWorkers = 25, monthlyQuota = 1000000,
          features = [''basic-crawling'', ''stealth-mode'', ''swarm-workers'', ''ai-oracle'',
                      ''api-access''] \<rparr>
      | Enterprise \<Rightarrow> \<lparr> tl_maxWorkers = 100, monthlyQuota = 10000000,
          features = [''basic-crawling'', ''stealth-mode'', ''swarm-workers'', ''ai-oracle'',
                      ''visual-testing'', ''api-access'', ''priority-support''] \<rparr>
      | Unlimited \<Rightarrow> \<lparr> tl_maxWorkers = 1000, monthlyQuota = - 1,
          features = [''basic-crawling'', ''stealth-mode'', ''swarm-workers'', ''ai-oracle'',
                      ''visual-testing'', ''api-access'', ''priority-support'',
                      ''custom-training'', ''white-label'', ''on-premise''] \<rparr>)"

definition DEFAULT_CONFIG :: ZeroKnowledgeLicenseConfig where
  "DEFAULT_CONFIG = \<lparr>
     proofExpirationMs = 300000,
     maxProofsPerHour = 1000,
     cfg_enabledFeatures = [''basic-crawling'', ''stealth-mode'', ''swarm-workers'', ''ai-oracle'',
       ''visual-testing'', ''api-access'', ''priority-support'', ''custom-training'',
       ''white-label'', ''on-premise''],
     tierHierarchy = defaultTierHierarchy,
     tierLimits = defaultTierLimits,
     verificationCacheMs = 60000,
     strictMode = True \<rparr>"

text \<open>The mutable fields of the class. A cache entry is a result with its expiry time.\<close>

record ZeroKnowledgeLicense =
  config :: ZeroKnowledgeLicenseConfig
  commitments :: "string \<rightharpoonup> LicenseCommitment"
  proofCache :: "string \<rightharpoonup> (VerificationResult \<times> int)"
  proofCounts :: "string \<rightharpoonup> int"
  proofCountReset :: int
  totalProofsGenerated :: int
  totalProofsVerified :: int
  totalValidProofs :: int
  totalInvalidProofs :: int

text \<open>The constructor, called at time \<open>now\<close> with the merged configuration.\<close>

definition newZeroKnowledgeLicense :: "ZeroKnowledgeLicenseConfig \<Rightarrow> int \<Rightarrow> ZeroKnowledgeLicense" where
  "newZeroKnowledgeLicense cfg now = \<lparr>
     config = cfg,
     commitments = Map.empty,
     proofCache = Map.empty,
     proofCounts = Map.empty,
     proofCountReset = now,
     totalProofsGenerated = 0,
     totalProofsVerified = 0,
     totalValidProofs = 0,
     totalInvalidProofs = 0 \<rparr>"

text \<open>
  Every call of \<^verbatim>\<open>crypto.randomBytes\<close> is an input of the model: the number that the
  bytes spell. \<open>LicenseEntropy\<close> holds the draws of one \<^verbatim>\<open>createLicense\<close>,
  \<open>ProofEntropy\<close> those of one \<^verbatim>\<open>generateProof\<close> (\<open>pe_scalars E i\<close> is the draw of
  the \<open>i\<close>-th call of \<^verbatim>\<open>randomScalar\<close>, counted from 0), \<open>RequestEntropy\<close> those of
  one \<^verbatim>\<open>createProofRequest\<close>.
\<close>

record LicenseEntropy =
  le_key :: nat
  le_license :: nat
  le_tier :: nat
  le_expiration :: nat
  le_features :: "nat \<Rightarrow> nat"
  le_id :: nat

record ProofEntropy =
  pe_nonce :: nat
  pe_scalars :: "nat \<Rightarrow> nat"
  pe_id :: nat

record RequestEntropy =
  re_id :: nat
  re_challenge :: nat

section \<open>Feature registry\<close>

text \<open>One pass of the inner loop of \<^verbatim>\<open>createFeatureMerkleTree\<close>: neighbours are hashed in
  pairs, and a node without a right neighbour is paired with itself.\<close>

fun pairLevel :: "crypto \<Rightarrow> string list \<Rightarrow> string list" where
  "pairLevel K [] = []"
| "pairLevel K [l] = [hashValues K [l, l]]"
| "pairLevel K (l # r # rest) = hashValues K [l, if r = [] then l else r] # pairLevel K rest"

function buildLevels :: "crypto \<Rightarrow> string list \<Rightarrow> string list list" where
  "buildLevels K cur = (if 1 < length cur then cur # buildLevels K (pairLevel K cur) else [cur])"
  by pat_completeness auto
termination
proof (relation "measure (\<lambda>(K, cur). length cur)")
  show "wf (measure (\<lambda>(K :: crypto, cur :: string list). length cur))"
    by simp
next
  fix K :: crypto and cur :: "string list"
  assume big: "1 < length cur"
  have halves: "length (pairLevel K xs) = (length xs + 1) div 2" for xs
    by (induction K xs rule: pairLevel.induct) simp_all
  show "((K, pairLevel K cur), (K, cur)) \<in> measure (\<lambda>(K, cur). length cur)"
    using big by (simp add: halves)
qed

declare buildLevels.simps [simp del]

definition merkleRoot :: "crypto \<Rightarrow> string list list \<Rightarrow> string" where
  "merkleRoot K levels =
     (case last levels of
        [] \<Rightarrow> hashValue K ''empty''
      | node # _ \<Rightarrow> if node = [] then hashValue K ''empty'' else node)"

text \<open>The inner loop of the proof generation, over every level but the last.\<close>

fun merklePath :: "string list list \<Rightarrow> nat \<Rightarrow> string list \<times> nat list" where
  "merklePath (lvl # nxt # rest) index =
     (let siblingIndex = (if index mod 2 = 0 then index + 1 else index - 1);
          up = merklePath (nxt # rest) (index div 2)
      in if siblingIndex < length lvl
         then (lvl ! siblingIndex # fst up, index mod 2 # snd up)
         else up)"
| "merklePath _ index = ([], [])"

fun setProofs ::
  "string list list \<Rightarrow> string list \<Rightarrow> nat \<Rightarrow> string list \<Rightarrow>
   (string \<rightharpoonup> MerkleProof) \<Rightarrow> (string \<rightharpoonup> MerkleProof)" where
  "setProofs levels leaves i [] m = m"
| "setProofs levels leaves i (f # fs) m =
     setProofs levels leaves (i + 1) fs
       (m(f \<mapsto> \<lparr> leaf = leaves ! i,
                 path = fst (merklePath levels i),
                 indices = snd (merklePath levels i) \<rparr>))"

definition createFeatureMerkleTree ::
  "crypto \<Rightarrow> string list \<Rightarrow> string \<times> (string \<rightharpoonup> MerkleProof)" where
  "createFeatureMerkleTree K fs =
     (let leaves = map (hashValue K) fs;
          levels = buildLevels K leaves
      in (merkleRoot K levels, setProofs levels leaves 0 fs Map.empty))"

text \<open>
  Modelled from the spec: \<^verbatim>\<open>verify(root, proof, featureHash)\<close> of the feature registry,
  which the source does not have as a function. It folds the path in the indicated
  order: \<^verbatim>\<open>hash(current \<parallel> sibling)\<close> where the stored index is 0,
  \<^verbatim>\<open>hash(sibling \<parallel> current)\<close> where it is 1, as the loop of
  \<^verbatim>\<open>verifyFeatureAccessProof\<close> does on its two path elements.
\<close>

fun foldMerklePath :: "crypto \<Rightarrow> string \<Rightarrow> string list \<Rightarrow> nat list \<Rightarrow> string" where
  "foldMerklePath K cur (sib # sibs) (i # ixs) =
     foldMerklePath K (if i = 0 then hashValues K [cur, sib] else hashValues K [sib, cur]) sibs ixs"
| "foldMerklePath K cur _ _ = cur"

definition merkleProofRoot :: "crypto \<Rightarrow> MerkleProof \<Rightarrow> string" where
  "merkleProofRoot K mp = foldMerklePath K (leaf mp) (path mp) (indices mp)"

section \<open>License creation\<close>

text \<open>\<^verbatim>\<open>toUpperCase\<close> on the letters of a hexadecimal string.\<close>

definition toUpperCase :: "string \<Rightarrow> string" where
  "toUpperCase s =
     map (\<lambda>ch. case map_of (zip ''abcdefghijklmnopqrstuvwxyz'' ''ABCDEFGHIJKLMNOPQRSTUVWXYZ'') ch of
                  Some u \<Rightarrow> u
                | None \<Rightarrow> ch) s"

text \<open>\<^verbatim>\<open>s.match(/.{8}/g)\<close>: the successive groups of eight characters.\<close>

function groupsOf8 :: "string \<Rightarrow> string list" where
  "groupsOf8 s = (if length s < 8 then [] else take 8 s # groupsOf8 (drop 8 s))"
  by pat_completeness auto
termination
  by (relation "measure length") auto

declare groupsOf8.simps [simp del]

definition generateLicenseKey :: "nat \<Rightarrow> string" where
  "generateLicenseKey d =
     (let groups = groupsOf8 (toUpperCase (randomBytesHex 32 d))
      in ''QP-'' @ (if groups = [] then ''undefined'' else joinWith ''-'' groups))"

definition generateBlindingFactors :: "LicenseEntropy \<Rightarrow> BlindingFactors" where
  "generateBlindingFactors E = \<lparr>
     bf_license = randomBytesHex 32 (le_license E),
     bf_tier = randomBytesHex 32 (le_tier E),
     bf_expiration = randomBytesHex 32 (le_expiration E),
     bf_features = map (\<lambda>i. randomBytesHex 32 (le_features E i)) [0..<10] \<rparr>"

definition generateId :: "string \<Rightarrow> nat \<Rightarrow> string" where
  "generateId prefix d = prefix @ ''_'' @ randomBytesHex 16 d"

text \<open>\<^verbatim>\<open>Math.floor(t / 1000)\<close> of the time value \<open>t\<close> of a valid date is \<open>t div 1000\<close>: the
  exact quotient is an integer or at least a thousandth below the next one, and at this
  magnitude a double is less than a thousandth away from it.\<close>

text \<open>\<^verbatim>\<open>createLicense(tier, expirationDate)\<close>, called at time \<open>now\<close>. It returns the
  commitment and the secret, and the engine with the commitment stored.\<close>

definition createLicense ::
  "crypto \<Rightarrow> ZeroKnowledgeLicense \<Rightarrow> int \<Rightarrow> LicenseEntropy \<Rightarrow> LicenseTier \<Rightarrow> int \<Rightarrow>
   (LicenseCommitment \<times> LicenseSecret) \<times> ZeroKnowledgeLicense" where
  "createLicense K st now E tr expirationDate =
     (let key = generateLicenseKey (le_key E);
          blinding = generateBlindingFactors E;
          licenseCm = pedersenCommit (hashToScalar K key) (hashToScalar K (bf_license blinding));
          tv = tierHierarchy (config st) tr;
          tierCm = pedersenCommit tv (hashToScalar K (bf_tier blinding));
          expTs = expirationDate div 1000;
          expirationCm = pedersenCommit expTs (hashToScalar K (bf_expiration blinding));
          limits = tierLimits (config st) tr;
          tree = createFeatureMerkleTree K (features limits);
          wd = \<lparr> tier = tr, tierValue = tv, expirationTimestamp = expTs,
                 maxWorkers = tl_maxWorkers limits, enabledFeatures = features limits,
                 usageQuota = monthlyQuota limits, usedQuota = 0,
                 featureMerkleProofs = snd tree \<rparr>;
          master = deriveSecret K key ''master'';
          proofSec = deriveSecret K master ''proof'';
          cid = generateId ''cmt'' (le_id E);
          vkh = hashValues K [licenseCm, tierCm, expirationCm, fst tree];
          cm = \<lparr> commitmentId = cid, commitment = licenseCm, tierCommitment = tierCm,
                 expirationCommitment = expirationCm, featureMerkleRoot = fst tree,
                 createdAt = now, verificationKeyHash = vkh \<rparr>;
          secret = \<lparr> licenseKey = key, blindingFactors = blinding, masterSecret = master,
                     proofSecret = proofSec, witnessData = wd \<rparr>
      in ((cm, secret), st\<lparr> commitments := (commitments st)(cid \<mapsto> cm) \<rparr>))"

section \<open>Rate limiter\<close>

text \<open>\<^verbatim>\<open>checkRateLimit\<close> at time \<open>now\<close>. The window is reset before the count is read, so the
  reset stays in the returned engine also when the call throws.\<close>

definition checkRateLimit ::
  "ZeroKnowledgeLicense \<Rightarrow> int \<Rightarrow> string \<Rightarrow> (error + unit) \<times> ZeroKnowledgeLicense" where
  "checkRateLimit st now cid =
     (let st1 = (if numberGreater (numberSub now (proofCountReset st)) 3600000
                 then st\<lparr> proofCounts := Map.empty, proofCountReset := now \<rparr>
                 else st);
          count = (case proofCounts st1 cid of None \<Rightarrow> 0 | Some n \<Rightarrow> n)
      in if count \<ge> maxProofsPerHour (config st1)
         then (Inl RateLimitExceeded, st1)
         else (Inr (), st1\<lparr> proofCounts := (proofCounts st1)(cid \<mapsto> numberAdd count 1) \<rparr>))"

section \<open>Proof generation\<close>

text \<open>Each generator returns the proof triple with the public inputs, or the error it
  throws. A requirement that is absent is \<^verbatim>\<open>undefined\<close> in the source: arithmetic on it
  gives \<^verbatim>\<open>NaN\<close>, every comparison with it is false, and \<^verbatim>\<open>BigInt(NaN)\<close> throws a
  \<^verbatim>\<open>RangeError\<close>. The difference that a generator commits to is computed on numbers
  and then converted: \<^verbatim>\<open>BigInt(a - b)\<close> is \<open>toBigInt (numberSub a b)\<close>.\<close>

definition generateOwnershipProof ::
  "crypto \<Rightarrow> ProofEntropy \<Rightarrow> LicenseSecret \<Rightarrow> LicenseCommitment \<Rightarrow> string \<Rightarrow> string \<Rightarrow>
   error + (ProofTriple \<times> string list)" where
  "generateOwnershipProof K E secret cm chal nc =
     (let r = randomScalar (pe_scalars E 0);
          k = randomScalar (pe_scalars E 1);
          t = pedersenCommit r k;
          ch = hashToScalar K (commitment cm @ t @ chal @ nc);
          s1 = jsRem (r + ch * hashToScalar K (licenseKey secret)) (groupOrder circuitParams);
          s2 = jsRem (k + ch * hashToScalar K (bf_license (blindingFactors secret)))
                     (groupOrder circuitParams)
      in Inr (\<lparr> proof_a = (t, bigToString16 s1),
                 proof_b = ((bigToString16 s2, bigToString16 ch), (''0'', ''0'')),
                 proof_c = (commitment cm, nc) \<rparr>,
              [commitment cm, chal, verificationKeyHash cm]))"

definition generateTierMembershipProof ::
  "crypto \<Rightarrow> ZeroKnowledgeLicenseConfig \<Rightarrow> ProofEntropy \<Rightarrow> LicenseSecret \<Rightarrow> LicenseCommitment \<Rightarrow>
   LicenseTier option \<Rightarrow> string \<Rightarrow> string \<Rightarrow> error + (ProofTriple \<times> string list)" where
  "generateTierMembershipProof K cfg E secret cm minTier chal nc =
     (case minTier of
        None \<Rightarrow> Inl RangeError
      | Some mt \<Rightarrow>
          (let requiredValue = tierHierarchy cfg mt;
               actualValue = tierValue (witnessData secret)
           in case toBigInt (numberSub actualValue requiredValue) of
                Inl e \<Rightarrow> Inl e
              | Inr difference \<Rightarrow>
                  (let r = randomScalar (pe_scalars E 0);
                       diffCommitment = pedersenCommit difference r;
                       L = pedersenCommit (randomScalar (pe_scalars E 1))
                             (randomScalar (pe_scalars E 2));
                       R = pedersenCommit (randomScalar (pe_scalars E 3))
                             (randomScalar (pe_scalars E 4));
                       ch = hashToScalar K (tierCommitment cm @ diffCommitment @ chal @ nc)
                   in Inr (\<lparr> proof_a = (diffCommitment, L),
                              proof_b = ((R, bigToString16 ch), (bigToString16 r, ''0'')),
                              proof_c = (tierCommitment cm, nc) \<rparr>,
                           [tierCommitment cm, numberToString requiredValue, chal]))))"

text \<open>\<^verbatim>\<open>xs[i] || '0'\<close>.\<close>

definition pathElementOr0 :: "string list \<Rightarrow> nat \<Rightarrow> string" where
  "pathElementOr0 xs i = (if i < length xs \<and> xs ! i \<noteq> [] then xs ! i else ''0'')"

definition generateFeatureAccessProof ::
  "crypto \<Rightarrow> ProofEntropy \<Rightarrow> LicenseSecret \<Rightarrow> LicenseCommitment \<Rightarrow> string option \<Rightarrow>
   string \<Rightarrow> string \<Rightarrow> error + (ProofTriple \<times> string list)" where
  "generateFeatureAccessProof K E secret cm reqFeature chal nc =
     (case (case reqFeature of None \<Rightarrow> None
                             | Some f \<Rightarrow> map_option (Pair f) (featureMerkleProofs (witnessData secret) f)) of
        None \<Rightarrow> Inl FeatureNotLicensed
      | Some (f, mp) \<Rightarrow>
          (let featureHash = hashValue K f;
               r = randomScalar (pe_scalars E 0);
               pathCommitment = hashValues K (path mp);
               ch = hashToScalar K (featureMerkleRoot cm @ featureHash @ pathCommitment @ chal @ nc)
           in Inr (\<lparr> proof_a = (leaf mp, pathCommitment),
                      proof_b = ((pathElementOr0 (path mp) 0, pathElementOr0 (path mp) 1),
                                 (joinWith '','' (map (\<lambda>i. numberToString (int i)) (indices mp)),
                                  bigToString16 ch)),
                      proof_c = (featureMerkleRoot cm, nc) \<rparr>,
                   [featureMerkleRoot cm, featureHash, chal])))"

definition generateQuotaProof ::
  "crypto \<Rightarrow> ProofEntropy \<Rightarrow> LicenseSecret \<Rightarrow> LicenseCommitment \<Rightarrow> int option \<Rightarrow>
   string \<Rightarrow> string \<Rightarrow> error + (ProofTriple \<times> string list)" where
  "generateQuotaProof K E secret cm reqQuota chal nc =
     (let remaining = numberSub (usageQuota (witnessData secret)) (usedQuota (witnessData secret))
      in case reqQuota of
           None \<Rightarrow> Inl RangeError
         | Some rq \<Rightarrow>
             if numberLess remaining rq then Inl InsufficientQuota
             else
               (case toBigInt (numberMinus remaining rq) of
                  Inl e \<Rightarrow> Inl e
                | Inr difference \<Rightarrow>
                    (let r = randomScalar (pe_scalars E 0);
                         diffCommitment = pedersenCommit difference r;
                         ch = hashToScalar K (diffCommitment @ numberToString rq @ chal @ nc)
                     in Inr (\<lparr> proof_a = (diffCommitment, bigToString16 ch),
                                proof_b = ((bigToString16 r, ''0''), (''0'', ''0'')),
                                proof_c = (commitment cm, nc) \<rparr>,
                             [numberToString rq, chal]))))"

definition generateWorkerAllocationProof ::
  "crypto \<Rightarrow> ProofEntropy \<Rightarrow> LicenseSecret \<Rightarrow> LicenseCommitment \<Rightarrow> int option \<Rightarrow>
   string \<Rightarrow> string \<Rightarrow> error + (ProofTriple \<times> string list)" where
  "generateWorkerAllocationProof K E secret cm reqWorkers chal nc =
     (let maxW = maxWorkers (witnessData secret)
      in case reqWorkers of
           None \<Rightarrow> Inl RangeError
         | Some rw \<Rightarrow>
             if rw > maxW then Inl ExceedsWorkerLimit
             else
               (case toBigInt (numberSub maxW rw) of
                  Inl e \<Rightarrow> Inl e
                | Inr difference \<Rightarrow>
                    (let r = randomScalar (pe_scalars E 0);
                         diffCommitment = pedersenCommit difference r;
                         ch = hashToScalar K (diffCommitment @ numberToString rw @ chal @ nc)
                     in Inr (\<lparr> proof_a = (diffCommitment, bigToString16 ch),
                                proof_b = ((bigToString16 r, numberToString maxW), (''0'', ''0'')),
                                proof_c = (tierCommitment cm, nc) \<rparr>,
                             [numberToString rw, chal]))))"

definition generateTimeValidityProof ::
  "crypto \<Rightarrow> ProofEntropy \<Rightarrow> LicenseSecret \<Rightarrow> LicenseCommitment \<Rightarrow> int option \<Rightarrow>
   string \<Rightarrow> string \<Rightarrow> error + (ProofTriple \<times> string list)" where
  "generateTimeValidityProof K E secret cm curTs chal nc =
     (let expiration = expirationTimestamp (witnessData secret)
      in case curTs of
           None \<Rightarrow> Inl RangeError
         | Some ts \<Rightarrow>
             if expiration \<le> ts then Inl LicenseExpired
             else
               (case toBigInt (numberSub expiration ts) of
                  Inl e \<Rightarrow> Inl e
                | Inr difference \<Rightarrow>
                    (let r = randomScalar (pe_scalars E 0);
                         diffCommitment = pedersenCommit difference r;
                         ch = hashToScalar K (expirationCommitment cm @ diffCommitment @ chal @ nc)
                     in Inr (\<lparr> proof_a = (diffCommitment, bigToString16 ch),
                                proof_b = ((bigToString16 r, bf_expiration (blindingFactors secret)),
                                           (''0'', ''0'')),
                                proof_c = (expirationCommitment cm, nc) \<rparr>,
                             [expirationCommitment cm, numberToString ts, chal]))))"

text \<open>The \<^verbatim>\<open>switch\<close> of \<^verbatim>\<open>generateProof\<close>.\<close>

definition generateByType ::
  "crypto \<Rightarrow> ZeroKnowledgeLicenseConfig \<Rightarrow> ProofEntropy \<Rightarrow> LicenseSecret \<Rightarrow> LicenseCommitment \<Rightarrow>
   ProofRequest \<Rightarrow> string \<Rightarrow> error + (ProofTriple \<times> string list)" where
  "generateByType K cfg E secret cm request nc =
     (case req_proofType request of
        LicenseOwnership \<Rightarrow> generateOwnershipProof K E secret cm (req_challenge request) nc
      | TierMembership \<Rightarrow>
          generateTierMembershipProof K cfg E secret cm (minimumTier (requirements request))
            (req_challenge request) nc
      | FeatureAccess \<Rightarrow>
          generateFeatureAccessProof K E secret cm (requiredFeature (requirements request))
            (req_challenge request) nc
      | UsageQuota \<Rightarrow>
          generateQuotaProof K E secret cm (requiredQuota (requirements request))
            (req_challenge request) nc
      | WorkerAllocation \<Rightarrow>
          generateWorkerAllocationProof K E secret cm (requestedWorkers (requirements request))
            (req_challenge request) nc
      | TimeValidity \<Rightarrow>
          generateTimeValidityProof K E secret cm (currentTimestamp (requirements request))
            (req_challenge request) nc)"

text \<open>\<^verbatim>\<open>generateProof(secret, commitment, request)\<close>, called at time \<open>now\<close>: the proof or the
  error thrown, with the engine as the call leaves it.\<close>

definition generateProof ::
  "crypto \<Rightarrow> ZeroKnowledgeLicense \<Rightarrow> int \<Rightarrow> ProofEntropy \<Rightarrow> LicenseSecret \<Rightarrow> LicenseCommitment \<Rightarrow>
   ProofRequest \<Rightarrow> (error + ZKProof) \<times> ZeroKnowledgeLicense" where
  "generateProof K st now E secret cm request =
     (case checkRateLimit st now (commitmentId cm) of
        (Inl e, st1) \<Rightarrow> (Inl e, st1)
      | (Inr u, st1) \<Rightarrow>
          (let nc = randomBytesHex 16 (pe_nonce E)
           in case generateByType K (config st1) E secret cm request nc of
                Inl e \<Rightarrow> (Inl e, st1)
              | Inr (body, inputs) \<Rightarrow>
                  (Inr \<lparr> proofId = generateId ''proof'' (pe_id E),
                         timestamp = now,
                         proofType = req_proofType request,
                         proofBody = body,
                         publicInputs = inputs,
                         zk_commitmentId = commitmentId cm,
                         verified = False,
                         verifiedAt = None,
                         nonce = nc,
                         challenge = req_challenge request \<rparr>,
                   st1\<lparr> totalProofsGenerated := numberAdd (totalProofsGenerated st1) 1 \<rparr>)))"

text \<open>A client that calls \<^verbatim>\<open>generateProof\<close> once per element of a list, in order: each
  call has its clock reading, its draws and its arguments, and runs on the engine that the
  call before it left.\<close>

type_synonym proofCall = "int \<times> ProofEntropy \<times> LicenseSecret \<times> LicenseCommitment \<times> ProofRequest"

fun generateProofs ::
  "crypto \<Rightarrow> ZeroKnowledgeLicense \<Rightarrow> proofCall list \<Rightarrow> (error + ZKProof) list \<times> ZeroKnowledgeLicense" where
  "generateProofs K st [] = ([], st)"
| "generateProofs K st ((now, E, secret, cm, request) # calls) =
     (let r = generateProof K st now E secret cm request;
          rest = generateProofs K (snd r) calls
      in (fst r # fst rest, snd rest))"

text \<open>\<^verbatim>\<open>new Date(t)\<close> of a number: a date when \<open>t\<close> is a time value, and an invalid date
  (\<open>None\<close>) beyond.\<close>

definition newDate :: "int \<Rightarrow> int option" where
  "newDate t = (if \<bar>t\<bar> \<le> 8640000000000000 then Some t else None)"

text \<open>\<^verbatim>\<open>createProofRequest(proofType, requirements)\<close>, called at time \<open>now\<close>.\<close>

definition createProofRequest ::
  "ZeroKnowledgeLicense \<Rightarrow> int \<Rightarrow> RequestEntropy \<Rightarrow> ProofType \<Rightarrow> ProofRequirements \<Rightarrow> ProofRequest" where
  "createProofRequest st now E pt reqs = \<lparr>
     requestId = generateId ''req'' (re_id E),
     req_timestamp = now,
     req_proofType = pt,
     requirements = reqs,
     req_challenge = randomBytesHex 32 (re_challenge E),
     expiresAt = newDate (numberAdd now (proofExpirationMs (config st))) \<rparr>"

section \<open>Verification\<close>

text \<open>Each routine runs in a \<^verbatim>\<open>try\<close> block whose \<^verbatim>\<open>catch\<close> returns \<^verbatim>\<open>false\<close>; what can
  throw there is \<^verbatim>\<open>BigInt('0x' + s)\<close>.\<close>

definition verifyOwnershipProof :: "ZKProof \<Rightarrow> LicenseCommitment \<Rightarrow> bool" where
  "verifyOwnershipProof zp cm =
     (let t = fst (proof_a (proofBody zp))
      in case hexToBigInt (snd (proof_a (proofBody zp))) of
           Inl e \<Rightarrow> False
         | Inr s1 \<Rightarrow>
             (case hexToBigInt (fst (fst (proof_b (proofBody zp)))) of
                Inl e \<Rightarrow> False
              | Inr s2 \<Rightarrow>
                  (case hexToBigInt (snd (fst (proof_b (proofBody zp)))) of
                     Inl e \<Rightarrow> False
                   | Inr ch \<Rightarrow>
                       (case pedersenVerify s1 s2 ch (commitment cm) of
                          Inl e \<Rightarrow> False
                        | Inr expected \<Rightarrow> t = expected))))"

definition verifyTierMembershipProof :: "ZKProof \<Rightarrow> LicenseCommitment \<Rightarrow> bool" where
  "verifyTierMembershipProof zp cm =
     (case hexToBigInt (snd (fst (proof_b (proofBody zp)))) of
        Inl e \<Rightarrow> False
      | Inr ch \<Rightarrow> fst (proof_c (proofBody zp)) = tierCommitment cm)"

text \<open>After the comparison of the roots the source folds the two path elements of
  \<^verbatim>\<open>proof.b[0]\<close> into a local variable that is neither compared nor returned, and
  returns \<^verbatim>\<open>true\<close>; no statement of that loop throws.\<close>

definition verifyFeatureAccessProof :: "ZKProof \<Rightarrow> LicenseCommitment \<Rightarrow> bool" where
  "verifyFeatureAccessProof zp cm =
     (if fst (proof_c (proofBody zp)) \<noteq> featureMerkleRoot cm then False else True)"

definition verifyQuotaProof :: "ZKProof \<Rightarrow> LicenseCommitment \<Rightarrow> bool" where
  "verifyQuotaProof zp cm = (length (fst (proof_a (proofBody zp))) > 0)"

definition verifyWorkerAllocationProof :: "ZKProof \<Rightarrow> LicenseCommitment \<Rightarrow> bool" where
  "verifyWorkerAllocationProof zp cm =
     (length (fst (proof_a (proofBody zp))) > 0 \<and> fst (proof_c (proofBody zp)) = tierCommitment cm)"

definition verifyTimeValidityProof :: "ZKProof \<Rightarrow> LicenseCommitment \<Rightarrow> bool" where
  "verifyTimeValidityProof zp cm = (fst (proof_c (proofBody zp)) = expirationCommitment cm)"

definition verifyByType :: "ZKProof \<Rightarrow> LicenseCommitment \<Rightarrow> bool" where
  "verifyByType zp cm =
     (case proofType zp of
        LicenseOwnership \<Rightarrow> verifyOwnershipProof zp cm
      | TierMembership \<Rightarrow> verifyTierMembershipProof zp cm
      | FeatureAccess \<Rightarrow> verifyFeatureAccessProof zp cm
      | UsageQuota \<Rightarrow> verifyQuotaProof zp cm
      | WorkerAllocation \<Rightarrow> verifyWorkerAllocationProof zp cm
      | TimeValidity \<Rightarrow> verifyTimeValidityProof zp cm)"

definition extractProvenClaims :: "ZKProof \<Rightarrow> bool \<Rightarrow> ProvenClaims" where
  "extractProvenClaims zp isValid = \<lparr>
     hasValidLicense = (isValid \<and> proofType zp = LicenseOwnership),
     meetsTierRequirement = Some (isValid \<and> proofType zp = TierMembership),
     hasFeatureAccess = Some (isValid \<and> proofType zp = FeatureAccess),
     hasQuota = Some (isValid \<and> proofType zp = UsageQuota),
     hasWorkerCapacity = Some (isValid \<and> proofType zp = WorkerAllocation),
     isNotExpired = Some (isValid \<and> proofType zp = TimeValidity) \<rparr>"

definition createInvalidResult :: "string \<Rightarrow> int \<Rightarrow> VerificationResult" where
  "createInvalidResult pid now = \<lparr>
     valid = False,
     vr_proofId = pid,
     vr_verifiedAt = now,
     provenClaims = \<lparr> hasValidLicense = False, meetsTierRequirement = None,
       hasFeatureAccess = None, hasQuota = None, hasWorkerCapacity = None, isNotExpired = None \<rparr>,
     verificationTime = 0 \<rparr>"

text \<open>A cache hit: an entry for the proof id that has not expired at \<open>now\<close>.\<close>

definition cachedResult :: "ZeroKnowledgeLicense \<Rightarrow> int \<Rightarrow> string \<Rightarrow> VerificationResult option" where
  "cachedResult st now pid =
     (case proofCache st pid of
        None \<Rightarrow> None
      | Some (res, expires) \<Rightarrow> if expires > now then Some res else None)"

text \<open>\<^verbatim>\<open>verifyProof(proof)\<close>, called at time \<open>now\<close> (one clock reading for the whole call, so
  the measured \<^verbatim>\<open>verificationTime\<close> is 0): the result, the proof object as the call
  leaves it, and the engine.\<close>

definition verifyProof ::
  "ZeroKnowledgeLicense \<Rightarrow> int \<Rightarrow> ZKProof \<Rightarrow> VerificationResult \<times> ZKProof \<times> ZeroKnowledgeLicense" where
  "verifyProof st now zp =
     (case cachedResult st now (proofId zp) of
        Some res \<Rightarrow> (res, zp, st)
      | None \<Rightarrow>
          (case commitments st (zk_commitmentId zp) of
             None \<Rightarrow> (createInvalidResult (proofId zp) now, zp, st)
           | Some cm \<Rightarrow>
               (let isValid = verifyByType zp cm;
                    zp1 = zp\<lparr> verified := isValid, verifiedAt := Some now \<rparr>;
                    st1 = st\<lparr> totalProofsVerified := numberAdd (totalProofsVerified st) 1 \<rparr>;
                    st2 = (if isValid
                           then st1\<lparr> totalValidProofs := numberAdd (totalValidProofs st1) 1 \<rparr>
                           else st1\<lparr> totalInvalidProofs := numberAdd (totalInvalidProofs st1) 1 \<rparr>);
                    res = \<lparr> valid = isValid, vr_proofId = proofId zp1, vr_verifiedAt = now,
                            provenClaims = extractProvenClaims zp1 isValid,
                            verificationTime = 0 \<rparr>
                in (res, zp1,
                    st2\<lparr> proofCache := (proofCache st2)
                           (proofId zp1 \<mapsto> (res, numberAdd now (verificationCacheMs (config st2)))) \<rparr>))))"

section \<open>Concrete runs\<close>

text \<open>
  The runs below fix every input: the clock readings, the random draws and the platform's
  SHA-256. \<open>knownSha256\<close> lists the digest of every string that these runs hash, as the
  platform computes it (any SHA-256 tool reproduces the numbers); \<open>knownHmacSha256\<close>
  does so for the two derived secrets. \<open>platformCrypto\<close> looks a string up there.
\<close>

definition knownSha256 :: "(string \<times> nat) list" where
  "knownSha256 = [
     (''QP-5D96CF7F-265BEDA9-CF0C26EF-4243ED52-566BF9D7-C55A45F8-D1A6E55E-9B9B1325'',
      28440286775410829056781617250583748771472405287303753207734227035276286142434),
     (''b37523a53b4a3ee20463513755ac0ecd5e6a0a2edd70e34dc1d77cffb7decc0c'',
      111736682108503103641655041764593071224509691608396460846812045985180065880526),
     (''683447c10cc8af11dd4eabbd1fcfb9809823beb1e6ba3ad74de45321ad915a36'',
      16773130982547758746015671460494299165426553747363059453656930591332417855655),
     (''1ff135342e825ce1158d003d9a0b2361aed09b824ca87fc2bfb637dd5bae2d26'',
      111921274569099756838695138144151820617797665781201568317340685554584834755480),
     (''basic-crawling'',
      114088884697041559973234532392793300865676046008975450893202235476030854744028),
     (''27dc44da304cd89031273181b9749fa293e3052c9c8d560f488553c6771868ce283d5bf5b2d7be5d56f4635e395cd38f25a9b0df34bae69ca6228b9c83876b6f1b6a52593b810c1f38fc58d087db34562c9822679a7a337337205bf243f99e5ffc3c05386eefc02299571870a189cad22110b43cabfea66796f472ba173f47dc'',
      12076302634237085584619502360168264934993868106784067799528109633463385380753),
     (''27dc44da304cd89031273181b9749fa293e3052c9c8d560f488553c6771868ce105dd374517904eeee27c2bf102ac435e84c47bfe9557ac024ea1b3f20b2e0edaf5d8bb09f2e9ea4765890e0f94855d0d178403035c9a8c4668dc8f46a423cf9699f071a5fd8e665a9dfdec6baecde5b'',
      22031720490847178430801241319814038177662325332316026337466957795923443103866),
     (''283d5bf5b2d7be5d56f4635e395cd38f25a9b0df34bae69ca6228b9c83876b6f16fd7bf9acb227168f2b6d98ba1f08235e66f45dca7471be9cc22341d4f701b9af5d8bb09f2e9ea4765890e0f94855d0d178403035c9a8c4668dc8f46a423cf9699f071a5fd8e665a9dfdec6baecde5b'',
      8434444910611103314565850974872387247699090191315377675489671119929789491217),
     (''16fd7bf9acb227168f2b6d98ba1f08235e66f45dca7471be9cc22341d4f7059a10af5d8bb09f2e9ea4765890e0f94855d0d178403035c9a8c4668dc8f46a423cf9699f071a5fd8e665a9dfdec6baecde5b'',
      115573171673845269723940111523892752714661881208745715600654818419372081114242),
     (''stealth-mode'',
      36020832073239730233436960894880980716467448676174878267758299365102183777977),
     (''swarm-workers'',
      27122683459402957254120028892152051163037034855620196507674472806256753433948),
     (''ai-oracle'',
      45508731187651578419994773443529845138888629352316349642282387784346065472122),
     (''visual-testing'',
      99760425845106125757156413986351822789225538330879506215670552241355632605520),
     (''api-access'',
      73676415585101463481426554856086455192587969671153520943714878683429457899422),
     (''priority-support'',
      54693623963348541129531494592599007004780881526693839504574130988024404678641),
     (''fc3c05386eefc02299571870a189cad22110b43cabfea66796f472ba173f47dc4fa31186ca15d27eba8623d08d3f347a9855cb8a20590b3c147c3cef1ec806b9'',
      72775844905239623660470948076154712546009976897072842153984175028050461682872),
     (''3bf6e5131b8f3c9f6f54b3dbc8acc297eb8a0d7e06172328c66391989586dd5c649d07704fead745c70d95a533cfe7a1368f30075e85ab3dde0dcd3a73188a7a'',
      90164328593234105520910752548384707382052318136885120235662875516762461388668),
     (''dc8e666b660d4bf8153d9643f1cee163543506b7382152d2866e4f4faadaf950a2e35f9a7d15818368d71cd60e63dea589a8420ce28fdbe8c5151179cf242f9e'',
      29675779532941249789318453137814304165107402422972428305439569040392509308485),
     (''78eb7e8015166e06005d95573cb0c398739280453a3aa2862e48a46dd4b097f178eb7e8015166e06005d95573cb0c398739280453a3aa2862e48a46dd4b097f1'',
      42213000987170943714728179211802211065054141561854737896542832442473675283050),
     (''a0e5ab23709c67120ed9d005f7987df57d1e1a7b73b876f3f5f53412257f6cb8c7573395e80072225d1e1c431dfae76aff3dc303a5bb0cb43dd25a210ee13f7c'',
      8662071469484535687882489657104377569782355941016689827987171536429357165347),
     (''419be55fb346955cef12ba84b85e3a49c47dedd4ec901f5e89e2609eaf79be455d53b63d0181c7f2b6dbd988e00a700df499a822f9328986ef5e68ef3a14da6a'',
      114115444271044656597895710840098231593154954084437989109072482873677442738011),
     (''13268f07b91a8197633d4df5b1631dde8d77eff883544742aa7b6dfde04b6b23fc4b0d75c92e73865fcf8ac9f845d4e318ae7e45aafaa1d3d11adb14029c675b'',
      5777473002442349481114012670502943807401785428802496860470595794807958641979),
     (''419be55fb346955cef12ba84b85e3a49c47dedd4ec901f5e89e2609eaf79be4578eb7e8015166e06005d95573cb0c398739280453a3aa2862e48a46dd4b097f1'',
      79323923732965036180334235432839957210607610728741592015957856030666052743558),
     (''13268f07b91a8197633d4df5b1631dde8d77eff883544742aa7b6dfde04b6b23af5fbff211da5ec699d65f7a51c17cc80b50ecf26e9b0dc26854cd459b1e3186'',
      92276918544893441638062999425358922110578937324361520479473420715951638111568),
     (''custom-training'',
      62841436529898635862212562374443335216992509224736767874994839966788105469888),
     (''white-label'',
      91884160701813378737822639178845453826816183351541293829512513768740286364468),
     (''on-premise'',
      77780841810923668068976024602279702576415545496036083262754805510693868809525),
     (''78eb7e8015166e06005d95573cb0c398739280453a3aa2862e48a46dd4b097f18aeefe1cf2845e0437b67bc2f56da88768a545a51aea6b42c25f455c4baeffc0'',
      72951043682917735359535235553172244003002748367309739494602001375947117321012),
     (''cb24978c4259620caa2c516485fed64ea8621d757267f4e19f28ec067e97fb34abf6657881da19e09f18868c2c30714338b4e5da24c3ff55516d080c021c2d35'',
      64304748130038294051686822723106045809580759104500221137670094786525171569400),
     (''419be55fb346955cef12ba84b85e3a49c47dedd4ec901f5e89e2609eaf79be45a148d3d747071bbcb70a79518f84fd077c904099310cba4675b45adb6c105b34'',
      27693194489409852554057751056914624981117333678250881967580477700321455519218),
     (''8e2b3298d2cca2b4c1e45664f9edb6baafef6676bdd8d58dff1ce99502b052f88e2b3298d2cca2b4c1e45664f9edb6baafef6676bdd8d58dff1ce99502b052f8'',
      84180542234806723463647157538600030664989193264697017483505585008905804568916),
     (''13268f07b91a8197633d4df5b1631dde8d77eff883544742aa7b6dfde04b6b233d39cae952b1753196fd998f3ee1f13fa07cdb694fac97a809bba1d59f6235f2'',
      91225318785115105939555780228571533988670671087791301128681606061782185206334),
     (''ba1c7f9a4166b5b5e33ae81fdab212c4f3bb6d39979752e137fcf5bfaa0fd954ba1c7f9a4166b5b5e33ae81fdab212c4f3bb6d39979752e137fcf5bfaa0fd954'',
      79781841821278819374022331749742676068989898456336245187762728515930178173341),
     (''c9afb35f5c982f1f32e6ecdd5ea3338a01939314956745c3155e701b551ae23eb062ec17f77202cf8463468b17bcc92f1401b5839484d6300dd8d42c6303b99d'',
      4603410423359631334532495227565758650226473788988182661597194191757713673059),
     (''27dc44da304cd89031273181b9749fa293e3052c9c8d560f488553c6771868ce283d5bf5b2d7be5d56f4635e395cd38f25a9b0df34bae69ca6228b9c83876b731b6a52593b810c1f38fc58d087db34562c9822679a7a337337205bf243f99e5f0a2d701e908c553790da5b54d916c5a6fec24c1e9892af88623b14e3f6290b63'',
      66759318972829582549040512158914090455165916383266888859852317796204443368912)
   ]"

definition knownHmacSha256 :: "((string \<times> string) \<times> nat) list" where
  "knownHmacSha256 = [
     ((''QP-5D96CF7F-265BEDA9-CF0C26EF-4243ED52-566BF9D7-C55A45F8-D1A6E55E-9B9B1325'', ''master''),
      58282869362703730869859577220594365560933428713875264190591884904985291456825),
     ((''80daef5f32d24e15b7536bfb067198ab37a57b67bc816f9d6a624eaf36e10139'', ''proof''),
      42446922415441271794805912800992838244263936205243638418264757959759178530036)
   ]"

definition platformCrypto :: crypto where
  "platformCrypto = \<lparr>
     sha256 = (\<lambda>s. case map_of knownSha256 s of Some d \<Rightarrow> d | None \<Rightarrow> 0),
     hmacSha256 = (\<lambda>k m. case map_of knownHmacSha256 (k, m) of Some d \<Rightarrow> d | None \<Rightarrow> 0) \<rparr>"

text \<open>An engine with the default configuration, and a trial license issued by it for one
  year (the run of the demonstration script \<^verbatim>\<open>test_zk.ts\<close>, with a trial tier).\<close>

definition engine0 :: ZeroKnowledgeLicense where
  "engine0 = newZeroKnowledgeLicense DEFAULT_CONFIG 1700000000000"

definition licenseEntropy0 :: LicenseEntropy where
  "licenseEntropy0 = \<lparr>
     le_key = 42331554067407228365299596803166113139172034638740136877214866396098869269285,
     le_license = 81170967018741060326621041817231222935710494700040003617829096318683016252428,
     le_tier = 47132907528634813320250093138937386003885611398855329157357412596769709185590,
     le_expiration = 14447875648064448820759582810618969554969766843784650474369248170549762207014,
     le_features = (\<lambda>i. 1000003 * (i + 1)),
     le_id = 1131691058601711542394616346888424404 \<rparr>"

definition trialLicense :: "(LicenseCommitment \<times> LicenseSecret) \<times> ZeroKnowledgeLicense" where
  "trialLicense = createLicense platformCrypto engine0 1700000000000 licenseEntropy0 Trial 1731536000000"

definition trialCommitment :: LicenseCommitment where
  "trialCommitment = fst (fst trialLicense)"

definition trialSecret :: LicenseSecret where
  "trialSecret = snd (fst trialLicense)"

definition engine1 :: ZeroKnowledgeLicense where
  "engine1 = snd trialLicense"

text \<open>The same issue for the unlimited tier.\<close>

definition unlimitedLicense :: "(LicenseCommitment \<times> LicenseSecret) \<times> ZeroKnowledgeLicense" where
  "unlimitedLicense =
     createLicense platformCrypto engine0 1700000000000 licenseEntropy0 Unlimited 1731536000000"

text \<open>Three proof requests of the verifier, and the client's draws for a proof.\<close>

definition requestEntropy0 :: RequestEntropy where
  "requestEntropy0 = \<lparr>
     re_id = 280719689764922889263433853942527901752,
     re_challenge = 79320029383552657621129330583869719912439047654366303826948725562438156696825 \<rparr>"

definition noRequirements :: ProofRequirements where
  "noRequirements = \<lparr> minimumTier = None, requiredFeature = None, requiredQuota = None,
     requestedWorkers = None, currentTimestamp = None \<rparr>"

definition ownershipRequest :: ProofRequest where
  "ownershipRequest =
     createProofRequest engine1 1700000001000 requestEntropy0 LicenseOwnership noRequirements"

definition tierRequest :: ProofRequest where
  "tierRequest =
     createProofRequest engine1 1700000001000 requestEntropy0 TierMembership
       (noRequirements\<lparr> minimumTier := Some Enterprise \<rparr>)"

definition quotaRequest :: ProofRequest where
  "quotaRequest =
     createProofRequest engine1 1700000001000 requestEntropy0 UsageQuota
       (noRequirements\<lparr> requiredQuota := Some 10 \<rparr>)"

definition proofEntropy0 :: ProofEntropy where
  "proofEntropy0 = \<lparr>
     pe_nonce = 140394658824385947110119335459675758171,
     pe_scalars = (\<lambda>i. if i < 5 then [6457398698814888858736475665690483836586975652478802237825657400900580120935,
       26454968058198096139070759391075641402017031117137132066502219590540500956202,
       6353199609647786397912095672173602443815055638806294358328888202037997456125,
       94744023237363032293769824468575999344026485114753946588001985606968952636512,
       77055647191937071247301883538545893541156346768915957228006972318257277921119] ! i else 0),
     pe_id = 150176547219212466325368582467353767193 \<rparr>"

definition ownershipRun :: "(error + ZKProof) \<times> ZeroKnowledgeLicense" where
  "ownershipRun =
     generateProof platformCrypto engine1 1700000002000 proofEntropy0 trialSecret trialCommitment
       ownershipRequest"

definition tierRun :: "(error + ZKProof) \<times> ZeroKnowledgeLicense" where
  "tierRun =
     generateProof platformCrypto engine1 1700000002000 proofEntropy0 trialSecret trialCommitment
       tierRequest"

definition quotaRun :: "(error + ZKProof) \<times> ZeroKnowledgeLicense" where
  "quotaRun =
     generateProof platformCrypto engine1 1700000002000 proofEntropy0 trialSecret trialCommitment
       quotaRequest"

text \<open>The proofs that the three runs return.\<close>

definition ownershipProof0 :: ZKProof where
  "ownershipProof0 = \<lparr>
     proofId = ''proof_70faf36fb78eda4fea394aba6a42ed19'',
     timestamp = 1700000002000,
     proofType = LicenseOwnership,
     proofBody = \<lparr>
       proof_a = (''105dd374517904eeee27c2bf102ac435e84c47bfe9557ac024ea1b3f20b2e0ed'',
                  ''2f5b5e097544c5368e5771b59afe1c19bf61430a19596b49416b2c14531e906c''),
       proof_b = ((''1b2a3acd0213a214ff90386dc2d2f6c8e197719273c86089494d8c1dbcb6308'',
                   ''513498ab4a342e655fd1fa04ddc297c8f92bf088c7b94f6d2519ebe6ccb879''),
                  (''0'', ''0'')),
       proof_c = (''27dc44da304cd89031273181b9749fa293e3052c9c8d560f488553c6771868ce'',
                  ''699f071a5fd8e665a9dfdec6baecde5b'') \<rparr>,
     publicInputs = [''27dc44da304cd89031273181b9749fa293e3052c9c8d560f488553c6771868ce'',
       ''af5d8bb09f2e9ea4765890e0f94855d0d178403035c9a8c4668dc8f46a423cf9'',
       ''1ab2f1f015b21d784e814b6ac847edde0b8f5f90d8fa885bc7b0efd70f34d791''],
     zk_commitmentId = ''cmt_00d9f4ad53a2f2b633f5f28807f0cbd4'',
     verified = False,
     verifiedAt = None,
     nonce = ''699f071a5fd8e665a9dfdec6baecde5b'',
     challenge = ''af5d8bb09f2e9ea4765890e0f94855d0d178403035c9a8c4668dc8f46a423cf9'' \<rparr>"

text \<open>The trial license against the minimum tier \<open>Enterprise\<close>.\<close>

definition tierProof0 :: ZKProof where
  "tierProof0 = \<lparr>
     proofId = ''proof_70faf36fb78eda4fea394aba6a42ed19'',
     timestamp = 1700000002000,
     proofType = TierMembership,
     proofBody = \<lparr>
       proof_a = (''16fd7bf9acb227168f2b6d98ba1f08235e66f45dca7471be9cc22341d4f701b9'',
                  ''1fef49420cdec54bfb6c88e608cb800943d7c1895be9df94562ebf6c54e86dd3''),
       proof_b = ((''2d08890e552bf6ddb7accadbc8a1311e4741ab3e4f4fbd8e05d316db1c174e9a'',
                   ''12a5ba05669630c31c4b4978c3d63f919227f1068fcf61bd1818044747ada811''),
                  (''e46c215b5fa5b0cdb18bd763f20134cfdfb462fd6fad8dbf82d5644ef7d9967'', ''0'')),
       proof_c = (''283d5bf5b2d7be5d56f4635e395cd38f25a9b0df34bae69ca6228b9c83876b6f'',
                  ''699f071a5fd8e665a9dfdec6baecde5b'') \<rparr>,
     publicInputs = [''283d5bf5b2d7be5d56f4635e395cd38f25a9b0df34bae69ca6228b9c83876b6f'',
       ''4'',
       ''af5d8bb09f2e9ea4765890e0f94855d0d178403035c9a8c4668dc8f46a423cf9''],
     zk_commitmentId = ''cmt_00d9f4ad53a2f2b633f5f28807f0cbd4'',
     verified = False,
     verifiedAt = None,
     nonce = ''699f071a5fd8e665a9dfdec6baecde5b'',
     challenge = ''af5d8bb09f2e9ea4765890e0f94855d0d178403035c9a8c4668dc8f46a423cf9'' \<rparr>"

text \<open>Ten units of quota.\<close>

definition quotaProof0 :: ZKProof where
  "quotaProof0 = \<lparr>
     proofId = ''proof_70faf36fb78eda4fea394aba6a42ed19'',
     timestamp = 1700000002000,
     proofType = UsageQuota,
     proofBody = \<lparr>
       proof_a = (''16fd7bf9acb227168f2b6d98ba1f08235e66f45dca7471be9cc22341d4f7059a'',
                  ''d8e9099df5b1c80d8eeeedc590bd07745f25b7c1bfece48777634e6b9a96c7d''),
       proof_b = ((''e46c215b5fa5b0cdb18bd763f20134cfdfb462fd6fad8dbf82d5644ef7d9967'',
                   ''0''),
                  (''0'', ''0'')),
       proof_c = (''27dc44da304cd89031273181b9749fa293e3052c9c8d560f488553c6771868ce'',
                  ''699f071a5fd8e665a9dfdec6baecde5b'') \<rparr>,
     publicInputs = [''10'',
       ''af5d8bb09f2e9ea4765890e0f94855d0d178403035c9a8c4668dc8f46a423cf9''],
     zk_commitmentId = ''cmt_00d9f4ad53a2f2b633f5f28807f0cbd4'',
     verified = False,
     verifiedAt = None,
     nonce = ''699f071a5fd8e665a9dfdec6baecde5b'',
     challenge = ''af5d8bb09f2e9ea4765890e0f94855d0d178403035c9a8c4668dc8f46a423cf9'' \<rparr>"

text \<open>The quota proof with the first character of \<^verbatim>\<open>proof.a[0]\<close> replaced.\<close>

definition tamperedQuotaProof :: ZKProof where
  "tamperedQuotaProof =
     quotaProof0\<lparr> proofBody := (proofBody quotaProof0)\<lparr>
       proof_a := (''f6fd7bf9acb227168f2b6d98ba1f08235e66f45dca7471be9cc22341d4f7059a'',
                   snd (proof_a (proofBody quotaProof0))) \<rparr> \<rparr>"

text \<open>The feature list of the enterprise tier, and the inclusion proof that the registry
  stores for its seventh feature.\<close>

definition enterpriseFeatures :: "string list" where
  "enterpriseFeatures = features (defaultTierLimits Enterprise)"

definition prioritySupportProof :: MerkleProof where
  "prioritySupportProof = \<lparr>
     leaf = ''78eb7e8015166e06005d95573cb0c398739280453a3aa2862e48a46dd4b097f1'',
     path = [''419be55fb346955cef12ba84b85e3a49c47dedd4ec901f5e89e2609eaf79be45'',
             ''13268f07b91a8197633d4df5b1631dde8d77eff883544742aa7b6dfde04b6b23''],
     indices = [1, 1] \<rparr>"







definition exhaustedUnlimitedEngine :: ZeroKnowledgeLicense where
  "exhaustedUnlimitedEngine =
     snd (generateProofs platformCrypto (snd unlimitedLicense)
       (replicate 1000 (1700000002000, proofEntropy0, snd (fst unlimitedLicense),
          fst (fst unlimitedLicense), quotaRequest)))"

section \<open>Properties\<close>

subsection \<open>Numbers\<close>

text \<open>Sums and differences below \<open>2 ^ 53\<close> in magnitude are exact.\<close>

lemma roundDouble_exact: "\<bar>x\<bar> < 2 ^ 53 \<Longrightarrow> roundDouble x = Finite x"
proof -
  assume small: "\<bar>x\<bar> < 2 ^ 53"
  then have "nat \<bar>x\<bar> < 2 ^ 53" by (simp add: nat_less_iff)
  then have m: "roundMagnitude (nat \<bar>x\<bar>) = nat \<bar>x\<bar>"
    by (simp add: roundMagnitude_def)
  have "nat \<bar>x\<bar> < 2 ^ 1024"
    using \<open>nat \<bar>x\<bar> < 2 ^ 53\<close> by (rule less_trans) simp
  moreover have "sgn x * \<bar>x\<bar> = x" by (simp add: mult_sgn_abs)
  ultimately show ?thesis
    by (simp add: roundDouble_def m)
qed

lemma numberAdd_exact: "\<bar>a + b\<bar> < 2 ^ 53 \<Longrightarrow> numberAdd a b = a + b"
proof -
  assume small: "\<bar>a + b\<bar> < 2 ^ 53"
  then have "nat \<bar>a + b\<bar> < 2 ^ 53" by (simp add: nat_less_iff)
  then have "roundMagnitude (nat \<bar>a + b\<bar>) = nat \<bar>a + b\<bar>"
    by (simp add: roundMagnitude_def)
  then show ?thesis
    by (simp add: numberAdd_def mult_sgn_abs)
qed

lemma bitLength_bounds: "0 < m \<Longrightarrow> 2 ^ (bitLength m - 1) \<le> m"
proof (induction m rule: bitLength.induct)
  case (1 n)
  show ?case
  proof (cases "n div 2 = 0")
    case True
    with 1(2) have "n = 1" by presburger
    then show ?thesis
      by (simp add: bitLength.simps [of "Suc 0"] bitLength.simps [of 0])
  next
    case False
    then have pos: "0 < n div 2" by simp
    with 1 have ih: "2 ^ (bitLength (n div 2) - 1) \<le> n div 2" by simp
    have bl: "bitLength n = Suc (bitLength (n div 2))"
      using 1(2) by (subst bitLength.simps) simp
    have "0 < bitLength (n div 2)"
      using pos by (subst bitLength.simps) simp
    then have "2 ^ (bitLength n - 1) = 2 * 2 ^ (bitLength (n div 2) - 1)"
      by (cases "bitLength (n div 2)") (simp_all add: bl)
    also have "\<dots> \<le> 2 * (n div 2)" using ih by simp
    also have "\<dots> \<le> n" by simp
    finally show ?thesis .
  qed
qed

lemma bitLength_large: "2 ^ k \<le> m \<Longrightarrow> k < bitLength m"
proof (induction k arbitrary: m)
  case 0
  then show ?case by (subst bitLength.simps) auto
next
  case (Suc k)
  then have "2 ^ k \<le> m div 2" by simp
  then have "k < bitLength (m div 2)" by (rule Suc.IH)
  moreover from Suc.prems have "0 < m" by (rule less_le_trans [rotated]) simp
  ultimately show ?case by (subst bitLength.simps) simp
qed

lemma roundMagnitude_large:
  assumes "2 ^ 53 \<le> m"
  shows "2 ^ 53 \<le> roundMagnitude m"
proof -
  define e where "e = bitLength m - 53"
  define q where "q = m div 2 ^ e"
  have rm: "roundMagnitude m =
      (if 2 ^ (e - 1) < m mod 2 ^ e \<or> (m mod 2 ^ e = 2 ^ (e - 1) \<and> odd q) then q + 1 else q) * 2 ^ e"
    using assms by (simp add: roundMagnitude_def Let_def e_def q_def)
  have big: "53 < bitLength m" using assms by (rule bitLength_large)
  then have e: "0 < e" "bitLength m - 1 = e + 52" by (simp_all add: e_def)
  from assms have "0 < m" by (rule less_le_trans [rotated]) simp
  then have "2 ^ (bitLength m - 1) \<le> m" by (rule bitLength_bounds)
  then have "(2::nat) ^ (e + 52) \<le> m" by (simp only: e)
  then have "(2::nat) ^ 52 * 2 ^ e \<le> m" by (simp add: power_add mult.commute)
  then have q: "(2::nat) ^ 52 \<le> q"
    by (simp add: q_def less_eq_div_iff_mult_less_eq)
  obtain e' where e': "e = Suc e'" using e(1) by (cases e) simp_all
  have "(2::nat) ^ 53 \<le> 2 ^ 52 * 2 ^ e"
    by (simp add: e')
  also have "\<dots> \<le> q * 2 ^ e" using q by (rule mult_le_mono1)
  also have "\<dots> \<le> (if 2 ^ (e - 1) < m mod 2 ^ e \<or> (m mod 2 ^ e = 2 ^ (e - 1) \<and> odd q)
                     then q + 1 else q) * 2 ^ e"
    by (rule mult_le_mono1) simp
  finally show ?thesis by (simp only: rm)
qed

lemma numberGreater_numberSub:
  assumes "\<bar>c\<bar> < 2 ^ 53"
  shows "numberGreater (numberSub a b) c \<longleftrightarrow> c < a - b"
proof (cases "\<bar>a - b\<bar> < 2 ^ 53")
  case True
  then show ?thesis by (simp add: numberSub_def roundDouble_exact)
next
  case False
  then have "(2::nat) ^ 53 \<le> nat \<bar>a - b\<bar>" by (simp add: le_nat_iff)
  then have v: "(2::nat) ^ 53 \<le> roundMagnitude (nat \<bar>a - b\<bar>)"
    by (rule roundMagnitude_large)
  then have "int (2 ^ 53) \<le> int (roundMagnitude (nat \<bar>a - b\<bar>))"
    by (rule iffD2 [OF of_nat_le_iff])
  then have iv: "(2::int) ^ 53 \<le> int (roundMagnitude (nat \<bar>a - b\<bar>))"
    by simp
  show ?thesis
  proof (cases "0 \<le> a - b")
    case True
    with False have "c < a - b" using assms by linarith
    moreover have "sgn (a - b) = 1" using True False by (simp add: sgn_if)
    ultimately show ?thesis
      using iv assms True by (simp add: numberSub_def roundDouble_def Let_def) linarith
  next
    case neg: False
    with False have "\<not> c < a - b" using assms by linarith
    moreover have "sgn (a - b) = - 1" using neg by (simp add: sgn_if)
    ultimately show ?thesis
      using iv assms neg by (simp add: numberSub_def roundDouble_def Let_def) linarith
  qed
qed

lemma numberSub_exact: "\<bar>a - b\<bar> < 2 ^ 53 \<Longrightarrow> numberSub a b = Finite (a - b)"
  by (simp add: numberSub_def roundDouble_exact)

text \<open>Beyond that a difference is rounded before it is converted: for one worker allowed
  and \<open>- 2 ^ 53\<close> requested, the worker-allocation generator commits to \<open>2 ^ 53\<close>, the
  double nearest to the exact difference \<open>2 ^ 53 + 1\<close>.\<close>

lemma bitLength_numeral:
  "bitLength (numeral k) = Suc (bitLength (numeral k div 2))"
  by (subst bitLength.simps) simp

lemma bitLength_small: "bitLength 0 = 0" "bitLength (Suc 0) = Suc 0"
  by (subst bitLength.simps, simp add: bitLength.simps [of 0])+

lemma rounded_difference:
  "toBigInt (numberSub 1 (- 9007199254740992)) = Inr 9007199254740992"
  "toBigInt (numberSub 1 (- 9007199254740994)) = Inr 9007199254740996"
  by (simp_all add: numberSub_def roundDouble_def roundMagnitude_def Let_def
      bitLength_numeral bitLength_small)

lemma window_elapsed: "numberGreater (numberSub now r) 3600000 \<longleftrightarrow> 3600000 < now - r"
  by (rule numberGreater_numberSub) simp

subsection \<open>Printing and parsing big integers\<close>

lemma hexVal_hexDigit: "d < 16 \<Longrightarrow> hexVal (hexDigit d) = Some d"
proof -
  assume "d < 16"
  then have "d = 0 \<or> d = 1 \<or> d = 2 \<or> d = 3 \<or> d = 4 \<or> d = 5 \<or> d = 6 \<or> d = 7
    \<or> d = 8 \<or> d = 9 \<or> d = 10 \<or> d = 11 \<or> d = 12 \<or> d = 13 \<or> d = 14 \<or> d = 15"
    by presburger
  then show ?thesis
    by (elim disjE) (simp_all add: hexVal_def hexDigit_def)
qed

lemma hexDigit_not_space: "d < 16 \<Longrightarrow> \<not> isStrWhiteSpace (hexDigit d)"
proof -
  assume "d < 16"
  then have "d = 0 \<or> d = 1 \<or> d = 2 \<or> d = 3 \<or> d = 4 \<or> d = 5 \<or> d = 6 \<or> d = 7
    \<or> d = 8 \<or> d = 9 \<or> d = 10 \<or> d = 11 \<or> d = 12 \<or> d = 13 \<or> d = 14 \<or> d = 15"
    by presburger
  then show ?thesis
    by (elim disjE) (simp_all add: isStrWhiteSpace_def hexDigit_def)
qed

lemma hexDigitsVal_append:
  "hexDigitsVal acc (xs @ ys) =
     (case hexDigitsVal acc xs of None \<Rightarrow> None | Some v \<Rightarrow> hexDigitsVal v ys)"
  by (induction xs arbitrary: acc) (auto split: option.splits)

lemma hexDigitsVal_toHexNat: "hexDigitsVal 0 (toHexNat n) = Some n"
proof (induction n rule: toHexNat.induct)
  case (1 n)
  show ?case
  proof (cases "n < 16")
    case True
    then show ?thesis
      by (subst toHexNat.simps) (simp add: hexVal_hexDigit)
  next
    case False
    with 1 have ih: "hexDigitsVal 0 (toHexNat (n div 16)) = Some (n div 16)" by simp
    have "hexDigitsVal 0 (toHexNat n)
        = hexDigitsVal 0 (toHexNat (n div 16) @ [hexDigit (n mod 16)])"
      using False by (subst toHexNat.simps) simp
    also have "\<dots> = Some (16 * (n div 16) + n mod 16)"
      by (simp add: hexDigitsVal_append ih hexVal_hexDigit)
    finally show ?thesis by simp
  qed
qed

lemma hexDigitsVal_zeros:
  "hexDigitsVal 0 (replicate k (CHR ''0'') @ s) = hexDigitsVal 0 s"
  by (induction k) (simp_all add: hexVal_def)

lemma toHexNat_snoc: "\<exists>pre. toHexNat n = pre @ [hexDigit (n mod 16)]"
  by (subst toHexNat.simps) auto

lemma trim_hex: "rev (dropWhile isStrWhiteSpace (rev (pre @ toHexNat n))) = pre @ toHexNat n"
proof -
  obtain ds where ds: "toHexNat n = ds @ [hexDigit (n mod 16)]"
    using toHexNat_snoc by blast
  have "\<not> isStrWhiteSpace (hexDigit (n mod 16))"
    by (rule hexDigit_not_space) simp
  then show ?thesis by (simp add: ds)
qed

lemma hexToBigInt_padded: "hexToBigInt (padStart k (toHexNat n)) = Inr (int n)"
proof -
  obtain ds where ds: "toHexNat n = ds @ [hexDigit (n mod 16)]"
    using toHexNat_snoc by blast
  have ne: "replicate (k - length (toHexNat n)) (CHR ''0'') @ toHexNat n \<noteq> []"
    by (simp add: ds)
  show ?thesis
    unfolding hexToBigInt_def padStart_def Let_def trim_hex
    using ne by (simp add: hexDigitsVal_zeros hexDigitsVal_toHexNat)
qed

lemma hexToBigInt_bigToString16:
  "0 \<le> n \<Longrightarrow> hexToBigInt (padStart k (bigToString16 n)) = Inr n"
  by (simp add: bigToString16_def hexToBigInt_padded)

lemma hexToBigInt_plain: "0 \<le> n \<Longrightarrow> hexToBigInt (bigToString16 n) = Inr n"
  using hexToBigInt_bigToString16 [of n 0] by (simp add: padStart_def)




lemma replicate_numeral_Cons:
  "replicate (numeral k) x = x # replicate (pred_numeral k) x"
  by (simp add: numeral_eq_Suc)

subsection \<open>The commitment scheme\<close>




text \<open>
  Claim C4 (commitment binding). The claim is that no commitment opens to two different
  values: \<open>pedersenCommit v' r' \<noteq> pedersenCommit v r\<close> whenever \<open>v' \<noteq> v\<close>. The
  code computes \<open>v + 5 * r\<close> modulo the field modulus, so the commitment to the value 5
  with blinding 0 is the commitment to the value 0 with blinding 1.
\<close>

theorem pedersenCommit_not_binding:
  "(5::int) \<noteq> 0 \<and> pedersenCommit 5 0 = pedersenCommit 0 1"
  by (simp add: pedersenCommit_def jsRem_def circuitParams_def)


subsection \<open>License creation\<close>

lemma createLicense_commitmentId:
  "commitmentId (fst (fst (createLicense K st now E tr d))) = generateId ''cmt'' (le_id E)"
  by (simp add: createLicense_def Let_def)

lemma createLicense_registered:
  "commitments (snd (createLicense K st now E tr d))
     (commitmentId (fst (fst (createLicense K st now E tr d))))
   = Some (fst (fst (createLicense K st now E tr d)))"
  by (simp add: createLicense_def Let_def)

lemma createLicense_engine:
  "config (snd (createLicense K st now E tr d)) = config st"
  "proofCache (snd (createLicense K st now E tr d)) = proofCache st"
  "proofCounts (snd (createLicense K st now E tr d)) = proofCounts st"
  "proofCountReset (snd (createLicense K st now E tr d)) = proofCountReset st"
  by (simp_all add: createLicense_def Let_def)

lemma createLicense_witness:
  "tierValue (witnessData (snd (fst (createLicense K st now E tr d)))) = tierHierarchy (config st) tr"
  "expirationTimestamp (witnessData (snd (fst (createLicense K st now E tr d)))) = d div 1000"
  "maxWorkers (witnessData (snd (fst (createLicense K st now E tr d))))
     = tl_maxWorkers (tierLimits (config st) tr)"
  "usageQuota (witnessData (snd (fst (createLicense K st now E tr d))))
     = monthlyQuota (tierLimits (config st) tr)"
  "usedQuota (witnessData (snd (fst (createLicense K st now E tr d)))) = 0"
  "featureMerkleProofs (witnessData (snd (fst (createLicense K st now E tr d))))
     = snd (createFeatureMerkleTree K (features (tierLimits (config st) tr)))"
  by (simp_all add: createLicense_def Let_def)

lemma createLicense_secret:
  "licenseKey (snd (fst (createLicense K st now E tr d))) = generateLicenseKey (le_key E)"
  "bf_license (blindingFactors (snd (fst (createLicense K st now E tr d))))
     = randomBytesHex 32 (le_license E)"
  "bf_expiration (blindingFactors (snd (fst (createLicense K st now E tr d))))
     = randomBytesHex 32 (le_expiration E)"
  by (simp_all add: createLicense_def Let_def generateBlindingFactors_def)

lemma createLicense_vkh:
  "verificationKeyHash (fst (fst (createLicense K st now E tr d)))
     = hashValues K [commitment (fst (fst (createLicense K st now E tr d))),
         tierCommitment (fst (fst (createLicense K st now E tr d))),
         expirationCommitment (fst (fst (createLicense K st now E tr d))),
         featureMerkleRoot (fst (fst (createLicense K st now E tr d)))]"
  by (simp add: createLicense_def Let_def)

lemma createLicense_commitments:
  "commitment (fst (fst (createLicense K st now E tr d)))
     = pedersenCommit (hashToScalar K (generateLicenseKey (le_key E)))
         (hashToScalar K (randomBytesHex 32 (le_license E)))"
  "tierCommitment (fst (fst (createLicense K st now E tr d)))
     = pedersenCommit (tierHierarchy (config st) tr) (hashToScalar K (randomBytesHex 32 (le_tier E)))"
  "expirationCommitment (fst (fst (createLicense K st now E tr d)))
     = pedersenCommit (d div 1000) (hashToScalar K (randomBytesHex 32 (le_expiration E)))"
  "featureMerkleRoot (fst (fst (createLicense K st now E tr d)))
     = fst (createFeatureMerkleTree K (features (tierLimits (config st) tr)))"
  by (simp_all add: createLicense_def Let_def generateBlindingFactors_def)

subsection \<open>Rate limiter\<close>

lemma checkRateLimit_admits:
  assumes "now - proofCountReset st \<le> 3600000"
    and "(case proofCounts st cid of None \<Rightarrow> 0 | Some n \<Rightarrow> n) < maxProofsPerHour (config st)"
  shows "checkRateLimit st now cid =
           (Inr (), st\<lparr> proofCounts := (proofCounts st)
               (cid \<mapsto> numberAdd (case proofCounts st cid of None \<Rightarrow> 0 | Some n \<Rightarrow> n) 1) \<rparr>)"
  using assms by (simp add: checkRateLimit_def Let_def window_elapsed)

lemma checkRateLimit_rejects:
  assumes "now - proofCountReset st \<le> 3600000"
    and "maxProofsPerHour (config st) \<le> (case proofCounts st cid of None \<Rightarrow> 0 | Some n \<Rightarrow> n)"
  shows "checkRateLimit st now cid = (Inl RateLimitExceeded, st)"
  using assms by (simp add: checkRateLimit_def Let_def window_elapsed)


lemma checkRateLimit_cases:
  "fst (checkRateLimit st now cid) = Inr () \<or> fst (checkRateLimit st now cid) = Inl RateLimitExceeded"
  by (simp add: checkRateLimit_def Let_def)

lemma checkRateLimit_keeps:
  "config (snd (checkRateLimit st now cid)) = config st"
  "commitments (snd (checkRateLimit st now cid)) = commitments st"
  "proofCache (snd (checkRateLimit st now cid)) = proofCache st"
  by (simp_all add: checkRateLimit_def Let_def)

subsection \<open>Proof generation\<close>

lemmas generators =
  generateByType_def generateOwnershipProof_def generateTierMembershipProof_def
  generateFeatureAccessProof_def generateQuotaProof_def generateWorkerAllocationProof_def
  generateTimeValidityProof_def

lemma toBigInt_error: "toBigInt x = Inl e \<Longrightarrow> e = RangeError"
  by (cases x) simp_all

lemma generateByType_no_rate_error:
  "generateByType K cfg E secret cm request nc \<noteq> Inl RateLimitExceeded"
  by (auto simp add: generators Let_def dest: toBigInt_error
      split: ProofType.splits option.splits sum.splits)

lemma generateProof_rejected:
  "fst (checkRateLimit st now (commitmentId cm)) = Inl e \<Longrightarrow>
   generateProof K st now E secret cm request = (Inl e, snd (checkRateLimit st now (commitmentId cm)))"
  by (cases "checkRateLimit st now (commitmentId cm)") (simp add: generateProof_def)

lemma generateProof_admitted:
  assumes "fst (checkRateLimit st now (commitmentId cm)) = Inr ()"
  shows "fst (generateProof K st now E secret cm request) =
           (case generateByType K (config st) E secret cm request (randomBytesHex 16 (pe_nonce E)) of
              Inl e \<Rightarrow> Inl e
            | Inr (body, inputs) \<Rightarrow>
                Inr \<lparr> proofId = generateId ''proof'' (pe_id E), timestamp = now,
                      proofType = req_proofType request, proofBody = body, publicInputs = inputs,
                      zk_commitmentId = commitmentId cm, verified = False, verifiedAt = None,
                      nonce = randomBytesHex 16 (pe_nonce E), challenge = req_challenge request \<rparr>)"
proof -
  obtain st1 where c: "checkRateLimit st now (commitmentId cm) = (Inr (), st1)"
    using assms by (cases "checkRateLimit st now (commitmentId cm)") auto
  have "config st1 = config st"
    using checkRateLimit_keeps(1) [of st now "commitmentId cm"] by (simp add: c)
  then show ?thesis
    by (simp add: generateProof_def c Let_def split: sum.splits prod.splits)
qed

lemma generateProof_keeps:
  "commitments (snd (generateProof K st now E secret cm request)) = commitments st"
  "proofCache (snd (generateProof K st now E secret cm request)) = proofCache st"
  "config (snd (generateProof K st now E secret cm request)) = config st"
proof -
  obtain r st1 where c: "checkRateLimit st now (commitmentId cm) = (r, st1)"
    by (cases "checkRateLimit st now (commitmentId cm)")
  have k: "commitments st1 = commitments st" "proofCache st1 = proofCache st" "config st1 = config st"
    using checkRateLimit_keeps [of st now "commitmentId cm"] by (simp_all add: c)
  show "commitments (snd (generateProof K st now E secret cm request)) = commitments st"
    "proofCache (snd (generateProof K st now E secret cm request)) = proofCache st"
    "config (snd (generateProof K st now E secret cm request)) = config st"
    by (simp_all add: generateProof_def c k Let_def split: sum.splits prod.splits)
qed

subsection \<open>Verification\<close>

lemma verifyProof_fresh:
  assumes "cachedResult st now (proofId zp) = None"
    and "commitments st (zk_commitmentId zp) = Some cm"
  shows "valid (fst (verifyProof st now zp)) = verifyByType zp cm"
    and "provenClaims (fst (verifyProof st now zp)) = extractProvenClaims zp (verifyByType zp cm)"
    and "fst (snd (verifyProof st now zp)) = zp\<lparr> verified := verifyByType zp cm, verifiedAt := Some now \<rparr>"
    and "commitments (snd (snd (verifyProof st now zp))) = commitments st"
    and "proofCache (snd (snd (verifyProof st now zp))) =
           (proofCache st)(proofId zp \<mapsto>
             (fst (verifyProof st now zp), numberAdd now (verificationCacheMs (config st))))"
  using assms by (simp_all add: verifyProof_def Let_def extractProvenClaims_def)




subsection \<open>Evaluation\<close>

lemma toHexNat_numeral:
  "toHexNat (numeral k) =
     (if (numeral k :: nat) < 16 then [hexDigit (numeral k)]
      else toHexNat (numeral k div 16) @ [hexDigit (numeral k mod 16)])"
  by (rule toHexNat.simps)

lemma toHexNat_small: "toHexNat 0 = ''0''" "toHexNat (Suc 0) = ''1''"
  by (subst toHexNat.simps, simp add: hexDigit_def)+

lemma toDecNat_numeral:
  "toDecNat (numeral k) =
     (if (numeral k :: nat) < 10 then [hexDigit (numeral k)]
      else toDecNat (numeral k div 10) @ [hexDigit (numeral k mod 10)])"
  by (rule toDecNat.simps)

lemma toDecNat_small: "toDecNat 0 = ''0''" "toDecNat (Suc 0) = ''1''"
  by (subst toDecNat.simps, simp add: hexDigit_def)+

lemma groupsOf8_eval:
  "groupsOf8 (c1 # c2 # c3 # c4 # c5 # c6 # c7 # c8 # s) = [c1, c2, c3, c4, c5, c6, c7, c8] # groupsOf8 s"
  "groupsOf8 [] = []"
  by (subst groupsOf8.simps, simp)+

lemmas print_eval =
  toHexNat_numeral toHexNat_small toDecNat_numeral toDecNat_small hexDigit_def
  replicate_numeral_Cons padStart_def bigToString16_def numberToString_def positiveToString_def

lemma sha256_platform:
  "sha256 platformCrypto s = (case map_of knownSha256 s of Some d \<Rightarrow> d | None \<Rightarrow> 0)"
  by (simp add: platformCrypto_def)

text \<open>The trial license of the run.\<close>

lemma trial_strings:
  "generateLicenseKey (le_key licenseEntropy0) = ''QP-5D96CF7F-265BEDA9-CF0C26EF-4243ED52-566BF9D7-C55A45F8-D1A6E55E-9B9B1325''"
  "randomBytesHex 32 (le_license licenseEntropy0) = ''b37523a53b4a3ee20463513755ac0ecd5e6a0a2edd70e34dc1d77cffb7decc0c''"
  "randomBytesHex 32 (le_tier licenseEntropy0) = ''683447c10cc8af11dd4eabbd1fcfb9809823beb1e6ba3ad74de45321ad915a36''"
  "randomBytesHex 32 (le_expiration licenseEntropy0) = ''1ff135342e825ce1158d003d9a0b2361aed09b824ca87fc2bfb637dd5bae2d26''"
  "generateId ''cmt'' (le_id licenseEntropy0) = ''cmt_00d9f4ad53a2f2b633f5f28807f0cbd4''"
  by (simp_all add: licenseEntropy0_def generateLicenseKey_def generateId_def randomBytesHex_def
      print_eval toUpperCase_def groupsOf8_eval)

lemmas lookup_eval = hashToScalar_def hashValue_def hashValues_def digestHex_def sha256_platform
  knownSha256_def jsRem_def circuitParams_def

lemma engine0_config: "config engine0 = DEFAULT_CONFIG"
  by (simp add: engine0_def newZeroKnowledgeLicense_def)


lemma trial_tree:
  "createFeatureMerkleTree platformCrypto [''basic-crawling''] =
     (''fc3c05386eefc02299571870a189cad22110b43cabfea66796f472ba173f47dc'',
      [''basic-crawling'' \<mapsto> \<lparr> leaf = ''fc3c05386eefc02299571870a189cad22110b43cabfea66796f472ba173f47dc'', path = [], indices = [] \<rparr>])"
  by (simp add: createFeatureMerkleTree_def buildLevels.simps merkleRoot_def lookup_eval print_eval)

lemma trial_commitment_fields:
  "commitmentId trialCommitment = ''cmt_00d9f4ad53a2f2b633f5f28807f0cbd4''"
  "commitment trialCommitment = ''27dc44da304cd89031273181b9749fa293e3052c9c8d560f488553c6771868ce''"
  "tierCommitment trialCommitment = ''283d5bf5b2d7be5d56f4635e395cd38f25a9b0df34bae69ca6228b9c83876b6f''"
  "expirationCommitment trialCommitment = ''1b6a52593b810c1f38fc58d087db34562c9822679a7a337337205bf243f99e5f''"
  "featureMerkleRoot trialCommitment = ''fc3c05386eefc02299571870a189cad22110b43cabfea66796f472ba173f47dc''"
  "verificationKeyHash trialCommitment = ''1ab2f1f015b21d784e814b6ac847edde0b8f5f90d8fa885bc7b0efd70f34d791''"
  by (simp_all add: trialCommitment_def trialLicense_def createLicense_commitments
      createLicense_commitmentId createLicense_vkh trial_strings engine0_config DEFAULT_CONFIG_def
      defaultTierHierarchy_def defaultTierLimits_def trial_tree pedersenCommit_def
      lookup_eval print_eval)

lemma trial_secret_fields:
  "licenseKey trialSecret = ''QP-5D96CF7F-265BEDA9-CF0C26EF-4243ED52-566BF9D7-C55A45F8-D1A6E55E-9B9B1325''"
  "bf_license (blindingFactors trialSecret) = ''b37523a53b4a3ee20463513755ac0ecd5e6a0a2edd70e34dc1d77cffb7decc0c''"
  "bf_expiration (blindingFactors trialSecret) = ''1ff135342e825ce1158d003d9a0b2361aed09b824ca87fc2bfb637dd5bae2d26''"
  "tierValue (witnessData trialSecret) = 1"
  "usageQuota (witnessData trialSecret) = 1000"
  "usedQuota (witnessData trialSecret) = 0"
  "maxWorkers (witnessData trialSecret) = 1"
  by (simp_all add: trialSecret_def trialLicense_def createLicense_secret createLicense_witness
      trial_strings engine0_config DEFAULT_CONFIG_def defaultTierHierarchy_def
      defaultTierLimits_def)

lemma engine1_fields:
  "config engine1 = DEFAULT_CONFIG"
  "proofCache engine1 = Map.empty"
  "proofCounts engine1 = Map.empty"
  "proofCountReset engine1 = 1700000000000"
  "commitments engine1 (commitmentId trialCommitment) = Some trialCommitment"
  by (simp_all add: engine1_def trialCommitment_def trialLicense_def createLicense_engine
      createLicense_registered engine0_def newZeroKnowledgeLicense_def)

lemma request_fields:
  "req_challenge ownershipRequest = ''af5d8bb09f2e9ea4765890e0f94855d0d178403035c9a8c4668dc8f46a423cf9''"
  "req_challenge tierRequest = ''af5d8bb09f2e9ea4765890e0f94855d0d178403035c9a8c4668dc8f46a423cf9''"
  "req_challenge quotaRequest = ''af5d8bb09f2e9ea4765890e0f94855d0d178403035c9a8c4668dc8f46a423cf9''"
  "req_proofType ownershipRequest = LicenseOwnership"
  "req_proofType tierRequest = TierMembership"
  "req_proofType quotaRequest = UsageQuota"
  "minimumTier (requirements tierRequest) = Some Enterprise"
  "requiredQuota (requirements quotaRequest) = Some 10"
  by (simp_all add: ownershipRequest_def tierRequest_def quotaRequest_def createProofRequest_def
      requestEntropy0_def noRequirements_def randomBytesHex_def print_eval)

lemma proof_entropy:
  "randomBytesHex 16 (pe_nonce proofEntropy0) = ''699f071a5fd8e665a9dfdec6baecde5b''"
  "generateId ''proof'' (pe_id proofEntropy0) = ''proof_70faf36fb78eda4fea394aba6a42ed19''"
  "randomScalar (pe_scalars proofEntropy0 0) = 6457398698814888858736475665690483836586975652478802237825657400900580120935"
  "randomScalar (pe_scalars proofEntropy0 (Suc 0)) = 4566725186358820916824353645818366313468666716721097722804015403964692460585"
  "randomScalar (pe_scalars proofEntropy0 2) = 6353199609647786397912095672173602443815055638806294358328888202037997456125"
  "randomScalar (pe_scalars proofEntropy0 3) = 7191051750005931404784201487546898989833027513089809213209168860665718654044"
  "randomScalar (pe_scalars proofEntropy0 4) = 11390918576419245580562666302774068275511253567667854196912359758529852434268"
  by (simp_all add: proofEntropy0_def generateId_def randomBytesHex_def randomScalar_def
      jsRem_def circuitParams_def print_eval)

lemma trial_admitted:
  "fst (checkRateLimit engine1 1700000002000 (commitmentId trialCommitment)) = Inr ()"
  by (simp add: checkRateLimit_def Let_def engine1_fields DEFAULT_CONFIG_def window_elapsed)

text \<open>The numbers of the three runs.\<close>

lemma run_scalars:
  "hashToScalar platformCrypto ''QP-5D96CF7F-265BEDA9-CF0C26EF-4243ED52-566BF9D7-C55A45F8-D1A6E55E-9B9B1325'' = 6552043903571553834535211505326473682924040886887718864036022848700477646817"
  "hashToScalar platformCrypto ''b37523a53b4a3ee20463513755ac0ecd5e6a0a2edd70e34dc1d77cffb7decc0c'' = 2295467749306727530423013038306695781767869606316289128321025052301023402441"
  "hashToScalar platformCrypto ''27dc44da304cd89031273181b9749fa293e3052c9c8d560f488553c6771868ce105dd374517904eeee27c2bf102ac435e84c47bfe9557ac024ea1b3f20b2e0edaf5d8bb09f2e9ea4765890e0f94855d0d178403035c9a8c4668dc8f46a423cf9699f071a5fd8e665a9dfdec6baecde5b'' = 143477619007903208554835574556763089113960931899991993768753609347634608249"
  "hashToScalar platformCrypto ''283d5bf5b2d7be5d56f4635e395cd38f25a9b0df34bae69ca6228b9c83876b6f16fd7bf9acb227168f2b6d98ba1f08235e66f45dca7471be9cc22341d4f701b9af5d8bb09f2e9ea4765890e0f94855d0d178403035c9a8c4668dc8f46a423cf9699f071a5fd8e665a9dfdec6baecde5b'' = 8434444910611103314565850974872387247699090191315377675489671119929789491217"
  "hashToScalar platformCrypto ''16fd7bf9acb227168f2b6d98ba1f08235e66f45dca7471be9cc22341d4f7059a10af5d8bb09f2e9ea4765890e0f94855d0d178403035c9a8c4668dc8f46a423cf9699f071a5fd8e665a9dfdec6baecde5b'' = 6131957314648893612708082797606377271920059206665543882163797486493038636157"
  by (simp_all add: lookup_eval)

lemma run_commitments:
  "pedersenCommit 6457398698814888858736475665690483836586975652478802237825657400900580120935 4566725186358820916824353645818366313468666716721097722804015403964692460585 = ''105dd374517904eeee27c2bf102ac435e84c47bfe9557ac024ea1b3f20b2e0ed''"
  "pedersenCommit (- 3) 6457398698814888858736475665690483836586975652478802237825657400900580120935 = ''16fd7bf9acb227168f2b6d98ba1f08235e66f45dca7471be9cc22341d4f701b9''"
  "pedersenCommit 4566725186358820916824353645818366313468666716721097722804015403964692460585 6353199609647786397912095672173602443815055638806294358328888202037997456125 = ''1fef49420cdec54bfb6c88e608cb800943d7c1895be9df94562ebf6c54e86dd3''"
  "pedersenCommit 7191051750005931404784201487546898989833027513089809213209168860665718654044 11390918576419245580562666302774068275511253567667854196912359758529852434268 = ''2d08890e552bf6ddb7accadbc8a1311e4741ab3e4f4fbd8e05d316db1c174e9a''"
  "pedersenCommit 990 6457398698814888858736475665690483836586975652478802237825657400900580120935 = ''16fd7bf9acb227168f2b6d98ba1f08235e66f45dca7471be9cc22341d4f7059a''"
  by (simp_all add: pedersenCommit_def jsRem_def circuitParams_def print_eval)

lemma run_responses:
  "jsRem 940071658919694309739797095042437547161729147047485842653835677000805157917880735619631080814951123354031070763365358783623987565225315444309756914368 (groupOrder circuitParams) = 21420135985454300156834162055985447957706814186682345301029545569926172807276"
  "jsRem 329348247179959727100514064577577889023187100468172234538920415035345748840926961322148201497572438486130676512089133837360482822563181502322797796394 (groupOrder circuitParams) = 767941269797797902016191880506419071865888454515403727761833469951936783112"
  by (simp_all add: jsRem_def circuitParams_def)

lemma run_prints:
  "bigToString16 21420135985454300156834162055985447957706814186682345301029545569926172807276 = ''2f5b5e097544c5368e5771b59afe1c19bf61430a19596b49416b2c14531e906c''"
  "bigToString16 767941269797797902016191880506419071865888454515403727761833469951936783112 = ''1b2a3acd0213a214ff90386dc2d2f6c8e197719273c86089494d8c1dbcb6308''"
  "bigToString16 143477619007903208554835574556763089113960931899991993768753609347634608249 = ''513498ab4a342e655fd1fa04ddc297c8f92bf088c7b94f6d2519ebe6ccb879''"
  "bigToString16 8434444910611103314565850974872387247699090191315377675489671119929789491217 = ''12a5ba05669630c31c4b4978c3d63f919227f1068fcf61bd1818044747ada811''"
  "bigToString16 6131957314648893612708082797606377271920059206665543882163797486493038636157 = ''d8e9099df5b1c80d8eeeedc590bd07745f25b7c1bfece48777634e6b9a96c7d''"
  "bigToString16 6457398698814888858736475665690483836586975652478802237825657400900580120935 = ''e46c215b5fa5b0cdb18bd763f20134cfdfb462fd6fad8dbf82d5644ef7d9967''"
  "numberToString 4 = ''4''"
  "numberToString 10 = ''10''"
  by (simp_all add: print_eval)

lemmas run_eval = request_fields trial_commitment_fields trial_secret_fields proof_entropy
  run_scalars run_commitments run_responses run_prints

lemma ownership_body:
  "generateByType platformCrypto DEFAULT_CONFIG proofEntropy0 trialSecret trialCommitment
     ownershipRequest ''699f071a5fd8e665a9dfdec6baecde5b''
   = Inr (proofBody ownershipProof0, publicInputs ownershipProof0)"
  by (simp add: generateByType_def generateOwnershipProof_def ownershipProof0_def Let_def run_eval)

lemma tier_body:
  "generateByType platformCrypto DEFAULT_CONFIG proofEntropy0 trialSecret trialCommitment
     tierRequest ''699f071a5fd8e665a9dfdec6baecde5b''
   = Inr (proofBody tierProof0, publicInputs tierProof0)"
  by (simp add: generateByType_def generateTierMembershipProof_def tierProof0_def Let_def run_eval
      DEFAULT_CONFIG_def defaultTierHierarchy_def numberSub_exact)

lemma quota_body:
  "generateByType platformCrypto DEFAULT_CONFIG proofEntropy0 trialSecret trialCommitment
     quotaRequest ''699f071a5fd8e665a9dfdec6baecde5b''
   = Inr (proofBody quotaProof0, publicInputs quotaProof0)"
  by (simp add: generateByType_def generateQuotaProof_def quotaProof0_def Let_def run_eval
      numberSub_exact roundDouble_exact)

lemma runs:
  "fst ownershipRun = Inr ownershipProof0"
  "fst tierRun = Inr tierProof0"
  "fst quotaRun = Inr quotaProof0"
  by (simp_all add: ownershipRun_def tierRun_def quotaRun_def
      generateProof_admitted [OF trial_admitted] engine1_fields proof_entropy
      ownership_body tier_body quota_body request_fields trial_commitment_fields
      ownershipProof0_def tierProof0_def quotaProof0_def)

subsection \<open>Round trips of the three runs\<close>

lemma run_engines:
  "cachedResult (snd ownershipRun) now pid = None"
  "cachedResult (snd tierRun) now pid = None"
  "cachedResult (snd quotaRun) now pid = None"
  "commitments (snd ownershipRun) (commitmentId trialCommitment) = Some trialCommitment"
  "commitments (snd tierRun) (commitmentId trialCommitment) = Some trialCommitment"
  "commitments (snd quotaRun) (commitmentId trialCommitment) = Some trialCommitment"
  "config (snd quotaRun) = DEFAULT_CONFIG"
  by (simp_all add: ownershipRun_def tierRun_def quotaRun_def generateProof_keeps
      cachedResult_def engine1_fields)

lemma proof_commitment_ids:
  "zk_commitmentId ownershipProof0 = commitmentId trialCommitment"
  "zk_commitmentId tierProof0 = commitmentId trialCommitment"
  "zk_commitmentId quotaProof0 = commitmentId trialCommitment"
  "zk_commitmentId tamperedQuotaProof = commitmentId trialCommitment"
  by (simp_all add: ownershipProof0_def tierProof0_def quotaProof0_def tamperedQuotaProof_def
      trial_commitment_fields)

lemma ownership_parses:
  "hexToBigInt (snd (proof_a (proofBody ownershipProof0))) = Inr 21420135985454300156834162055985447957706814186682345301029545569926172807276"
  "hexToBigInt (fst (fst (proof_b (proofBody ownershipProof0)))) = Inr 767941269797797902016191880506419071865888454515403727761833469951936783112"
  "hexToBigInt (snd (fst (proof_b (proofBody ownershipProof0)))) = Inr 143477619007903208554835574556763089113960931899991993768753609347634608249"
proof -
  have "hexToBigInt (bigToString16 21420135985454300156834162055985447957706814186682345301029545569926172807276) = Inr 21420135985454300156834162055985447957706814186682345301029545569926172807276"
    by (rule hexToBigInt_plain) simp
  then show "hexToBigInt (snd (proof_a (proofBody ownershipProof0))) = Inr 21420135985454300156834162055985447957706814186682345301029545569926172807276"
    by (simp add: run_prints ownershipProof0_def)
  have "hexToBigInt (bigToString16 767941269797797902016191880506419071865888454515403727761833469951936783112) = Inr 767941269797797902016191880506419071865888454515403727761833469951936783112"
    by (rule hexToBigInt_plain) simp
  then show "hexToBigInt (fst (fst (proof_b (proofBody ownershipProof0)))) = Inr 767941269797797902016191880506419071865888454515403727761833469951936783112"
    by (simp add: run_prints ownershipProof0_def)
  have "hexToBigInt (bigToString16 143477619007903208554835574556763089113960931899991993768753609347634608249) = Inr 143477619007903208554835574556763089113960931899991993768753609347634608249"
    by (rule hexToBigInt_plain) simp
  then show "hexToBigInt (snd (fst (proof_b (proofBody ownershipProof0)))) = Inr 143477619007903208554835574556763089113960931899991993768753609347634608249"
    by (simp add: run_prints ownershipProof0_def)
qed

lemma trial_commitment_value:
  "hexToBigInt (commitment trialCommitment) = Inr 18029382650105191486650276696859952591763388918469164505641148110205594659022"
proof -
  have "hexToBigInt (padStart 64 (bigToString16 18029382650105191486650276696859952591763388918469164505641148110205594659022)) = Inr 18029382650105191486650276696859952591763388918469164505641148110205594659022"
    by (rule hexToBigInt_bigToString16) simp
  moreover have "padStart 64 (bigToString16 18029382650105191486650276696859952591763388918469164505641148110205594659022) = commitment trialCommitment"
    by (simp add: trial_commitment_fields print_eval)
  ultimately show ?thesis by simp
qed

lemma ownership_recomputation:
  "pedersenVerify 21420135985454300156834162055985447957706814186682345301029545569926172807276 767941269797797902016191880506419071865888454515403727761833469951936783112 143477619007903208554835574556763089113960931899991993768753609347634608249 (commitment trialCommitment) = Inr ''-1f99081ead87247c66fdf4950736380d1de28aced984bae6c5b7c0b3d1fbf6d5''"
  by (simp add: pedersenVerify_def trial_commitment_value jsRem_def circuitParams_def print_eval)

text \<open>
  Claim C1 (round-trip proof correctness). The claim is that a proof generated from a
  witness that satisfies the statement verifies, and in particular that for
  license-ownership the verifier's recomputation \<^verbatim>\<open>pedersenVerify(s1, s2, c, commitment)\<close>
  equals the first message \<^verbatim>\<open>t\<close> of \<^verbatim>\<open>proof.a[0]\<close>. In the run below the issuer creates a
  trial license, the client proves its ownership, and the verifier rejects the proof: it
  reads \<open>s1\<close>, \<open>s2\<close> and \<open>c\<close> off the proof, and its recomputation is a negative number,
  printed with a minus sign, where \<^verbatim>\<open>t\<close> is 64 hexadecimal digits. The responses are
  reduced modulo the group order, the commitments modulo the field modulus, and the
  remainder of a negative number is negative.
\<close>

theorem ownership_round_trip_rejected:
  "fst ownershipRun = Inr ownershipProof0 \<and>
   fst (proof_a (proofBody ownershipProof0)) = ''105dd374517904eeee27c2bf102ac435e84c47bfe9557ac024ea1b3f20b2e0ed'' \<and>
   hexToBigInt (snd (proof_a (proofBody ownershipProof0))) = Inr 21420135985454300156834162055985447957706814186682345301029545569926172807276 \<and>
   hexToBigInt (fst (fst (proof_b (proofBody ownershipProof0)))) = Inr 767941269797797902016191880506419071865888454515403727761833469951936783112 \<and>
   hexToBigInt (snd (fst (proof_b (proofBody ownershipProof0)))) = Inr 143477619007903208554835574556763089113960931899991993768753609347634608249 \<and>
   pedersenVerify 21420135985454300156834162055985447957706814186682345301029545569926172807276 767941269797797902016191880506419071865888454515403727761833469951936783112 143477619007903208554835574556763089113960931899991993768753609347634608249 (commitment trialCommitment) = Inr ''-1f99081ead87247c66fdf4950736380d1de28aced984bae6c5b7c0b3d1fbf6d5'' \<and>
   valid (fst (verifyProof (snd ownershipRun) 1700000003000 ownershipProof0)) = False"
proof -
  have t: "fst (proof_a (proofBody ownershipProof0)) = ''105dd374517904eeee27c2bf102ac435e84c47bfe9557ac024ea1b3f20b2e0ed''"
    by (simp add: ownershipProof0_def)
  have "verifyOwnershipProof ownershipProof0 trialCommitment = False"
    by (simp add: verifyOwnershipProof_def Let_def ownership_parses ownership_recomputation t)
  moreover have "proofType ownershipProof0 = LicenseOwnership"
    by (simp add: ownershipProof0_def)
  ultimately have "verifyByType ownershipProof0 trialCommitment = False"
    by (simp add: verifyByType_def)
  then have "valid (fst (verifyProof (snd ownershipRun) 1700000003000 ownershipProof0)) = False"
    by (simp add: verifyProof_fresh(1) [where cm = trialCommitment] run_engines
        proof_commitment_ids)
  then show ?thesis
    by (simp add: runs t ownership_parses ownership_recomputation)
qed

text \<open>
  Claim C3 (range-proof negative case). The claim is that a witness whose tier rank is
  below the rank of the requested minimum tier yields no proof that verifies. In the run
  below the trial license (rank 1) is asked for the minimum tier \<open>Enterprise\<close> (rank 4):
  \<^verbatim>\<open>generateProof\<close> returns a proof, committing to the difference \<open>- 3\<close>, and
  \<^verbatim>\<open>verifyProof\<close> accepts it and reports the tier requirement as met.
\<close>

theorem tier_proof_below_minimum_accepted:
  "tierValue (witnessData trialSecret) = 1 \<and>
   tierHierarchy (config engine1) Enterprise = 4 \<and>
   minimumTier (requirements tierRequest) = Some Enterprise \<and>
   fst tierRun = Inr tierProof0 \<and>
   valid (fst (verifyProof (snd tierRun) 1700000003000 tierProof0)) = True \<and>
   meetsTierRequirement (provenClaims (fst (verifyProof (snd tierRun) 1700000003000 tierProof0)))
     = Some True"
proof -
  have "hexToBigInt (bigToString16 8434444910611103314565850974872387247699090191315377675489671119929789491217) = Inr 8434444910611103314565850974872387247699090191315377675489671119929789491217"
    by (rule hexToBigInt_plain) simp
  then have p: "hexToBigInt (snd (fst (proof_b (proofBody tierProof0)))) = Inr 8434444910611103314565850974872387247699090191315377675489671119929789491217"
    by (simp add: run_prints tierProof0_def)
  have c: "fst (proof_c (proofBody tierProof0)) = tierCommitment trialCommitment"
    by (simp add: tierProof0_def trial_commitment_fields)
  have ty: "proofType tierProof0 = TierMembership"
    by (simp add: tierProof0_def)
  have "verifyTierMembershipProof tierProof0 trialCommitment = True"
    by (simp add: verifyTierMembershipProof_def p c)
  then have v: "verifyByType tierProof0 trialCommitment = True"
    by (simp add: verifyByType_def ty)
  show ?thesis
    by (simp add: runs trial_secret_fields request_fields engine1_fields DEFAULT_CONFIG_def
        defaultTierHierarchy_def verifyProof_fresh(1,2) [where cm = trialCommitment]
        run_engines proof_commitment_ids v extractProvenClaims_def ty)
qed

text \<open>
  Claim C2 (soundness under tampering). The claim is that a proof which verifies stops
  verifying when a single byte of \<^verbatim>\<open>proof.a\<close>, \<^verbatim>\<open>proof.b\<close>, \<^verbatim>\<open>proof.c\<close> or the public
  inputs changes. In the run below the quota proof verifies; the first character of its
  difference commitment \<^verbatim>\<open>proof.a[0]\<close> is then replaced, every other character and field
  kept, and the result verifies as well, on the same engine with nothing cached:
  the quota verifier accepts any non-empty \<^verbatim>\<open>proof.a[0]\<close>.
\<close>

theorem tampered_quota_proof_accepted:
  "fst quotaRun = Inr quotaProof0 \<and>
   valid (fst (verifyProof (snd quotaRun) 1700000003000 quotaProof0)) = True \<and>
   hd (fst (proof_a (proofBody quotaProof0))) = CHR ''1'' \<and>
   hd (fst (proof_a (proofBody tamperedQuotaProof))) = CHR ''f'' \<and>
   tl (fst (proof_a (proofBody tamperedQuotaProof))) = tl (fst (proof_a (proofBody quotaProof0))) \<and>
   tamperedQuotaProof
     = quotaProof0\<lparr> proofBody := (proofBody quotaProof0)\<lparr> proof_a :=
         (fst (proof_a (proofBody tamperedQuotaProof)), snd (proof_a (proofBody quotaProof0))) \<rparr> \<rparr> \<and>
   valid (fst (verifyProof (snd quotaRun) 1700000003000 tamperedQuotaProof)) = True"
proof -
  have ty: "proofType quotaProof0 = UsageQuota" "proofType tamperedQuotaProof = UsageQuota"
    by (simp_all add: tamperedQuotaProof_def quotaProof0_def)
  have "verifyQuotaProof quotaProof0 trialCommitment = True"
    "verifyQuotaProof tamperedQuotaProof trialCommitment = True"
    by (simp_all add: verifyQuotaProof_def tamperedQuotaProof_def quotaProof0_def)
  then have v: "verifyByType quotaProof0 trialCommitment = True"
    and w: "verifyByType tamperedQuotaProof trialCommitment = True"
    by (simp_all add: verifyByType_def ty)
  have same: "proofId tamperedQuotaProof = proofId quotaProof0"
    by (simp add: tamperedQuotaProof_def)
  have shape: "hd (fst (proof_a (proofBody quotaProof0))) = CHR ''1''"
    "hd (fst (proof_a (proofBody tamperedQuotaProof))) = CHR ''f''"
    "tl (fst (proof_a (proofBody tamperedQuotaProof))) = tl (fst (proof_a (proofBody quotaProof0)))"
    "tamperedQuotaProof
       = quotaProof0\<lparr> proofBody := (proofBody quotaProof0)\<lparr> proof_a :=
           (fst (proof_a (proofBody tamperedQuotaProof)), snd (proof_a (proofBody quotaProof0))) \<rparr> \<rparr>"
    by (simp_all add: tamperedQuotaProof_def quotaProof0_def)
  show ?thesis
    by (simp add: runs verifyProof_fresh(1) [where cm = trialCommitment] run_engines
        proof_commitment_ids v w shape(1,2,3)) (rule shape(4))
qed

subsection \<open>The feature tree of the enterprise tier\<close>

lemma enterprise_leaves:
  "hashValue platformCrypto ''basic-crawling'' = ''fc3c05386eefc02299571870a189cad22110b43cabfea66796f472ba173f47dc''"
  "hashValue platformCrypto ''stealth-mode'' = ''4fa31186ca15d27eba8623d08d3f347a9855cb8a20590b3c147c3cef1ec806b9''"
  "hashValue platformCrypto ''swarm-workers'' = ''3bf6e5131b8f3c9f6f54b3dbc8acc297eb8a0d7e06172328c66391989586dd5c''"
  "hashValue platformCrypto ''ai-oracle'' = ''649d07704fead745c70d95a533cfe7a1368f30075e85ab3dde0dcd3a73188a7a''"
  "hashValue platformCrypto ''visual-testing'' = ''dc8e666b660d4bf8153d9643f1cee163543506b7382152d2866e4f4faadaf950''"
  "hashValue platformCrypto ''api-access'' = ''a2e35f9a7d15818368d71cd60e63dea589a8420ce28fdbe8c5151179cf242f9e''"
  "hashValue platformCrypto ''priority-support'' = ''78eb7e8015166e06005d95573cb0c398739280453a3aa2862e48a46dd4b097f1''"
  by (simp_all add: lookup_eval print_eval)

lemma enterprise_nodes:
  "hashValues platformCrypto [''fc3c05386eefc02299571870a189cad22110b43cabfea66796f472ba173f47dc'', ''4fa31186ca15d27eba8623d08d3f347a9855cb8a20590b3c147c3cef1ec806b9''] = ''a0e5ab23709c67120ed9d005f7987df57d1e1a7b73b876f3f5f53412257f6cb8''"
  "hashValues platformCrypto [''3bf6e5131b8f3c9f6f54b3dbc8acc297eb8a0d7e06172328c66391989586dd5c'', ''649d07704fead745c70d95a533cfe7a1368f30075e85ab3dde0dcd3a73188a7a''] = ''c7573395e80072225d1e1c431dfae76aff3dc303a5bb0cb43dd25a210ee13f7c''"
  "hashValues platformCrypto [''dc8e666b660d4bf8153d9643f1cee163543506b7382152d2866e4f4faadaf950'', ''a2e35f9a7d15818368d71cd60e63dea589a8420ce28fdbe8c5151179cf242f9e''] = ''419be55fb346955cef12ba84b85e3a49c47dedd4ec901f5e89e2609eaf79be45''"
  "hashValues platformCrypto [''78eb7e8015166e06005d95573cb0c398739280453a3aa2862e48a46dd4b097f1'', ''78eb7e8015166e06005d95573cb0c398739280453a3aa2862e48a46dd4b097f1''] = ''5d53b63d0181c7f2b6dbd988e00a700df499a822f9328986ef5e68ef3a14da6a''"
  "hashValues platformCrypto [''a0e5ab23709c67120ed9d005f7987df57d1e1a7b73b876f3f5f53412257f6cb8'', ''c7573395e80072225d1e1c431dfae76aff3dc303a5bb0cb43dd25a210ee13f7c''] = ''13268f07b91a8197633d4df5b1631dde8d77eff883544742aa7b6dfde04b6b23''"
  "hashValues platformCrypto [''419be55fb346955cef12ba84b85e3a49c47dedd4ec901f5e89e2609eaf79be45'', ''5d53b63d0181c7f2b6dbd988e00a700df499a822f9328986ef5e68ef3a14da6a''] = ''fc4b0d75c92e73865fcf8ac9f845d4e318ae7e45aafaa1d3d11adb14029c675b''"
  "hashValues platformCrypto [''13268f07b91a8197633d4df5b1631dde8d77eff883544742aa7b6dfde04b6b23'', ''fc4b0d75c92e73865fcf8ac9f845d4e318ae7e45aafaa1d3d11adb14029c675b''] = ''0cc5ef0ff5fd5635af35d62f69d32d58de6d2ce76ac0d26c99870cd9927d9d3b''"
  "hashValues platformCrypto [''419be55fb346955cef12ba84b85e3a49c47dedd4ec901f5e89e2609eaf79be45'', ''78eb7e8015166e06005d95573cb0c398739280453a3aa2862e48a46dd4b097f1''] = ''af5fbff211da5ec699d65f7a51c17cc80b50ecf26e9b0dc26854cd459b1e3186''"
  "hashValues platformCrypto [''13268f07b91a8197633d4df5b1631dde8d77eff883544742aa7b6dfde04b6b23'', ''af5fbff211da5ec699d65f7a51c17cc80b50ecf26e9b0dc26854cd459b1e3186''] = ''cc02e29254fe9014e720989b12fd581c7b68c15425e1b0e7356107ded5dee550''"
  by (simp_all add: lookup_eval print_eval)

lemma enterprise_levels:
  "buildLevels platformCrypto (map (hashValue platformCrypto) enterpriseFeatures) =
     [[''fc3c05386eefc02299571870a189cad22110b43cabfea66796f472ba173f47dc'',
       ''4fa31186ca15d27eba8623d08d3f347a9855cb8a20590b3c147c3cef1ec806b9'',
       ''3bf6e5131b8f3c9f6f54b3dbc8acc297eb8a0d7e06172328c66391989586dd5c'',
       ''649d07704fead745c70d95a533cfe7a1368f30075e85ab3dde0dcd3a73188a7a'',
       ''dc8e666b660d4bf8153d9643f1cee163543506b7382152d2866e4f4faadaf950'',
       ''a2e35f9a7d15818368d71cd60e63dea589a8420ce28fdbe8c5151179cf242f9e'',
       ''78eb7e8015166e06005d95573cb0c398739280453a3aa2862e48a46dd4b097f1''],
      [''a0e5ab23709c67120ed9d005f7987df57d1e1a7b73b876f3f5f53412257f6cb8'',
       ''c7573395e80072225d1e1c431dfae76aff3dc303a5bb0cb43dd25a210ee13f7c'',
       ''419be55fb346955cef12ba84b85e3a49c47dedd4ec901f5e89e2609eaf79be45'',
       ''5d53b63d0181c7f2b6dbd988e00a700df499a822f9328986ef5e68ef3a14da6a''],
      [''13268f07b91a8197633d4df5b1631dde8d77eff883544742aa7b6dfde04b6b23'',
       ''fc4b0d75c92e73865fcf8ac9f845d4e318ae7e45aafaa1d3d11adb14029c675b''],
      [''0cc5ef0ff5fd5635af35d62f69d32d58de6d2ce76ac0d26c99870cd9927d9d3b'']]"
  by (simp add: enterpriseFeatures_def defaultTierLimits_def enterprise_leaves enterprise_nodes
      buildLevels.simps)

text \<open>
  Claim C6 (Merkle inclusion correctness). The claim is that for the seven features of the
  enterprise tier the stored inclusion proof of every feature folds to the root of the
  tree. The tree has levels of 7, 4, 2 and 1 nodes; where a level is odd the construction
  pairs the last node with itself, and the proof generation leaves that step out of the
  path (the sibling index is beyond the level). The proof of the seventh feature,
  \<^verbatim>\<open>priority-support\<close>, therefore has two path entries where the tree has three levels
  below the root, and it folds to another hash than the root.
\<close>

theorem priority_support_proof_misses_root:
  "length enterpriseFeatures = 7 \<and>
   enterpriseFeatures ! 6 = ''priority-support'' \<and>
   fst (createFeatureMerkleTree platformCrypto enterpriseFeatures)
     = ''0cc5ef0ff5fd5635af35d62f69d32d58de6d2ce76ac0d26c99870cd9927d9d3b'' \<and>
   snd (createFeatureMerkleTree platformCrypto enterpriseFeatures) ''priority-support''
     = Some prioritySupportProof \<and>
   merkleProofRoot platformCrypto prioritySupportProof
     = ''cc02e29254fe9014e720989b12fd581c7b68c15425e1b0e7356107ded5dee550''"
proof -
  have shape: "length enterpriseFeatures = 7" "enterpriseFeatures ! 6 = ''priority-support''"
    by (simp_all add: enterpriseFeatures_def defaultTierLimits_def)
  have root: "fst (createFeatureMerkleTree platformCrypto enterpriseFeatures)
      = ''0cc5ef0ff5fd5635af35d62f69d32d58de6d2ce76ac0d26c99870cd9927d9d3b''"
    by (simp add: createFeatureMerkleTree_def Let_def enterprise_levels merkleRoot_def)
  have stored: "snd (createFeatureMerkleTree platformCrypto enterpriseFeatures) ''priority-support''
      = Some prioritySupportProof"
    unfolding createFeatureMerkleTree_def Let_def enterprise_levels
    by (simp add: enterpriseFeatures_def defaultTierLimits_def enterprise_leaves
        prioritySupportProof_def)
  have fold: "merkleProofRoot platformCrypto prioritySupportProof
      = ''cc02e29254fe9014e720989b12fd581c7b68c15425e1b0e7356107ded5dee550''"
    by (simp add: merkleProofRoot_def prioritySupportProof_def enterprise_nodes)
  show ?thesis
    by (simp only: shape root stored fold simp_thms)
qed

subsection \<open>Verifying a proof again\<close>






subsection \<open>The limiter over a run of calls\<close>

lemma generateProof_limiter_state:
  "proofCounts (snd (generateProof K st now E secret cm request))
     = proofCounts (snd (checkRateLimit st now (commitmentId cm)))"
  "proofCountReset (snd (generateProof K st now E secret cm request))
     = proofCountReset (snd (checkRateLimit st now (commitmentId cm)))"
proof -
  obtain r st1 where c: "checkRateLimit st now (commitmentId cm) = (r, st1)"
    by (cases "checkRateLimit st now (commitmentId cm)")
  show "proofCounts (snd (generateProof K st now E secret cm request))
     = proofCounts (snd (checkRateLimit st now (commitmentId cm)))"
    "proofCountReset (snd (generateProof K st now E secret cm request))
     = proofCountReset (snd (checkRateLimit st now (commitmentId cm)))"
    by (simp_all add: generateProof_def c Let_def split: sum.splits prod.splits)
qed

lemma generateProof_passes:
  assumes "fst (checkRateLimit st now (commitmentId cm)) = Inr ()"
  shows "fst (generateProof K st now E secret cm request) \<noteq> Inl RateLimitExceeded"
  using generateByType_no_rate_error [of K "config st" E secret cm request "randomBytesHex 16 (pe_nonce E)"]
  by (auto simp add: generateProof_admitted [OF assms] split: sum.splits prod.splits)



lemma checkRateLimit_other:
  assumes "now - proofCountReset st \<le> 3600000" and "other \<noteq> cid"
  shows "proofCounts (snd (checkRateLimit st now other)) cid = proofCounts st cid"
    and "proofCountReset (snd (checkRateLimit st now other)) = proofCountReset st"
  using assms by (simp_all add: checkRateLimit_def Let_def window_elapsed)

text \<open>A run of calls within the window, some of them for the commitment id \<open>cid\<close>: while the
  count of \<open>cid\<close> stays within the ceiling, no call for \<open>cid\<close> is refused, and the count
  grows by the number of calls for \<open>cid\<close>.\<close>

lemma generateProofs_within_window:
  assumes "list_all (\<lambda>(now, E, secret, cm, request). now - proofCountReset st \<le> 3600000) calls"
    and "(case proofCounts st cid of None \<Rightarrow> 0 | Some n \<Rightarrow> n) = c"
    and "0 \<le> c"
    and "c + int (length (filter (\<lambda>(now, E, secret, cm, request). commitmentId cm = cid) calls))
           \<le> maxProofsPerHour (config st)"
    and "maxProofsPerHour (config st) < 2 ^ 53"
  shows "list_all (\<lambda>((now, E, secret, cm, request), r).
             commitmentId cm = cid \<longrightarrow> r \<noteq> Inl RateLimitExceeded)
           (zip calls (fst (generateProofs K st calls))) \<and>
         (case proofCounts (snd (generateProofs K st calls)) cid of None \<Rightarrow> 0 | Some n \<Rightarrow> n)
           = c + int (length (filter (\<lambda>(now, E, secret, cm, request). commitmentId cm = cid) calls)) \<and>
         config (snd (generateProofs K st calls)) = config st \<and>
         proofCountReset (snd (generateProofs K st calls)) = proofCountReset st"
  using assms
proof (induction calls arbitrary: st c)
  case Nil
  then show ?case by simp
next
  case (Cons call calls)
  obtain now E secret cm request where call: "call = (now, E, secret, cm, request)"
    by (cases call)
  let ?st1 = "snd (generateProof K st now E secret cm request)"
  let ?k = "int (length (filter (\<lambda>(now, E, secret, cm, request). commitmentId cm = cid) calls))"
  from Cons.prems(1) have window: "now - proofCountReset st \<le> 3600000"
    and rest: "list_all (\<lambda>(now, E, secret, cm, request). now - proofCountReset st \<le> 3600000) calls"
    by (auto simp add: call list_all_iff)
  show ?case
  proof (cases "commitmentId cm = cid")
    case True
    have below: "c < maxProofsPerHour (config st)"
      using Cons.prems(4) by (simp add: call True)
    then have small: "\<bar>c + 1\<bar> < 2 ^ 53"
      using Cons.prems(3,5) by linarith
    have limiter: "checkRateLimit st now cid =
        (Inr (), st\<lparr> proofCounts := (proofCounts st)(cid \<mapsto> c + 1) \<rparr>)"
      using checkRateLimit_admits [of now st cid] window below Cons.prems(2)
      by (simp add: numberAdd_exact [OF small])
    then have admitted: "fst (checkRateLimit st now (commitmentId cm)) = Inr ()"
      by (simp add: True)
    have passes: "fst (generateProof K st now E secret cm request) \<noteq> Inl RateLimitExceeded"
      using admitted by (rule generateProof_passes)
    have st1: "proofCounts ?st1 = (proofCounts st)(cid \<mapsto> c + 1)"
      "proofCountReset ?st1 = proofCountReset st"
      "config ?st1 = config st"
      by (simp_all add: generateProof_limiter_state generateProof_keeps True limiter)
    have ih: "list_all (\<lambda>((now, E, secret, cm, request), r).
             commitmentId cm = cid \<longrightarrow> r \<noteq> Inl RateLimitExceeded)
           (zip calls (fst (generateProofs K ?st1 calls))) \<and>
         (case proofCounts (snd (generateProofs K ?st1 calls)) cid of None \<Rightarrow> 0 | Some n \<Rightarrow> n)
           = (c + 1) + ?k \<and>
         config (snd (generateProofs K ?st1 calls)) = config ?st1 \<and>
         proofCountReset (snd (generateProofs K ?st1 calls)) = proofCountReset ?st1"
    proof (rule Cons.IH)
      show "list_all (\<lambda>(now, E, secret, cm, request). now - proofCountReset ?st1 \<le> 3600000) calls"
        using rest by (simp add: st1)
      show "(case proofCounts ?st1 cid of None \<Rightarrow> 0 | Some n \<Rightarrow> n) = c + 1"
        by (simp add: st1)
      show "0 \<le> c + 1" using Cons.prems(3) by simp
      show "c + 1 + ?k \<le> maxProofsPerHour (config ?st1)"
        using Cons.prems(4) by (simp add: st1 call True)
      show "maxProofsPerHour (config ?st1) < 2 ^ 53"
        using Cons.prems(5) by (simp add: st1)
    qed
    show ?thesis
      using ih passes by (simp add: call Let_def st1 True)
  next
    case False
    have st1: "proofCounts ?st1 cid = proofCounts st cid"
      "proofCountReset ?st1 = proofCountReset st"
      "config ?st1 = config st"
      using checkRateLimit_other [OF window False]
      by (simp_all add: generateProof_limiter_state generateProof_keeps)
    have ih: "list_all (\<lambda>((now, E, secret, cm, request), r).
             commitmentId cm = cid \<longrightarrow> r \<noteq> Inl RateLimitExceeded)
           (zip calls (fst (generateProofs K ?st1 calls))) \<and>
         (case proofCounts (snd (generateProofs K ?st1 calls)) cid of None \<Rightarrow> 0 | Some n \<Rightarrow> n)
           = c + ?k \<and>
         config (snd (generateProofs K ?st1 calls)) = config ?st1 \<and>
         proofCountReset (snd (generateProofs K ?st1 calls)) = proofCountReset ?st1"
    proof (rule Cons.IH)
      show "list_all (\<lambda>(now, E, secret, cm, request). now - proofCountReset ?st1 \<le> 3600000) calls"
        using rest by (simp add: st1)
      show "(case proofCounts ?st1 cid of None \<Rightarrow> 0 | Some n \<Rightarrow> n) = c"
        using Cons.prems(2) by (simp add: st1)
      show "0 \<le> c" by (rule Cons.prems(3))
      show "c + ?k \<le> maxProofsPerHour (config ?st1)"
        using Cons.prems(4) by (simp add: st1 call False)
      show "maxProofsPerHour (config ?st1) < 2 ^ 53"
        using Cons.prems(5) by (simp add: st1)
    qed
    show ?thesis
      using ih by (simp add: call Let_def st1 False)
  qed
qed

lemma generateProofs_exhaust:
  assumes "maxProofsPerHour (config st) = 1000"
    and "proofCounts st cid = None"
    and "list_all (\<lambda>(now, E, secret, cm, request). now - proofCountReset st \<le> 3600000) calls"
    and "length (filter (\<lambda>(now, E, secret, cm, request). commitmentId cm = cid) calls) = 1000"
  shows "list_all (\<lambda>((now, E, secret, cm, request), r).
             commitmentId cm = cid \<longrightarrow> r \<noteq> Inl RateLimitExceeded)
           (zip calls (fst (generateProofs K st calls)))"
    and "(case proofCounts (snd (generateProofs K st calls)) cid of None \<Rightarrow> 0 | Some n \<Rightarrow> n) = 1000"
    and "config (snd (generateProofs K st calls)) = config st"
    and "proofCountReset (snd (generateProofs K st calls)) = proofCountReset st"
  using generateProofs_within_window [of st calls cid 0 K] assms by simp_all

lemma generateProof_exhausted:
  assumes "maxProofsPerHour (config st) = 1000"
    and "(case proofCounts st (commitmentId cm) of None \<Rightarrow> 0 | Some n \<Rightarrow> n) = 1000"
    and "now - proofCountReset st \<le> 3600000"
  shows "generateProof K st now E secret cm request = (Inl RateLimitExceeded, st)"
proof -
  have "checkRateLimit st now (commitmentId cm) = (Inl RateLimitExceeded, st)"
    using assms by (simp add: checkRateLimit_rejects)
  then show ?thesis
    using generateProof_rejected [of st now cm RateLimitExceeded K E secret request] by simp
qed





subsection \<open>Requests that the witness does not satisfy\<close>

lemma generateProof_error:
  assumes "generateByType K (config st) E secret cm request (randomBytesHex 16 (pe_nonce E)) = Inl e"
  shows "fst (generateProof K st now E secret cm request)
       = Inl (if fst (checkRateLimit st now (commitmentId cm)) = Inr () then e else RateLimitExceeded)"
proof (cases "fst (checkRateLimit st now (commitmentId cm)) = Inr ()")
  case True
  then show ?thesis
    by (simp add: generateProof_admitted [OF True] assms)
next
  case False
  then have "fst (checkRateLimit st now (commitmentId cm)) = Inl RateLimitExceeded"
    using checkRateLimit_cases [of st now "commitmentId cm"] by simp
  then show ?thesis
    using False by (simp add: generateProof_rejected)
qed

lemma unsatisfied_quota:
  assumes "req_proofType request = UsageQuota"
    and "requiredQuota (requirements request) = Some rq"
    and "numberLess (numberSub (usageQuota (witnessData secret)) (usedQuota (witnessData secret))) rq"
  shows "generateByType K cfg E secret cm request nc = Inl InsufficientQuota"
  using assms by (simp add: generateByType_def generateQuotaProof_def Let_def)










subsection \<open>The unlimited tier\<close>

lemma unlimited_fields:
  "config (snd unlimitedLicense) = DEFAULT_CONFIG"
  "proofCounts (snd unlimitedLicense) cid = None"
  "proofCountReset (snd unlimitedLicense) = 1700000000000"
  by (simp_all add: unlimitedLicense_def createLicense_engine engine0_def
      newZeroKnowledgeLicense_def)

lemma exhaustedUnlimitedEngine_fields:
  "maxProofsPerHour (config exhaustedUnlimitedEngine) = 1000"
  "(case proofCounts exhaustedUnlimitedEngine (commitmentId (fst (fst unlimitedLicense))) of
      None \<Rightarrow> 0 | Some n \<Rightarrow> n) = 1000"
  "proofCountReset exhaustedUnlimitedEngine = 1700000000000"
proof -
  have ceiling: "maxProofsPerHour (config (snd unlimitedLicense)) = 1000"
    and calls: "list_all (\<lambda>(now, E, secret, cm, request).
        now - proofCountReset (snd unlimitedLicense) \<le> 3600000)
      (replicate 1000 (1700000002000, proofEntropy0, snd (fst unlimitedLicense),
        fst (fst unlimitedLicense), quotaRequest))"
    and len: "length (filter (\<lambda>(now, E, secret, cm, request).
        commitmentId cm = commitmentId (fst (fst unlimitedLicense)))
      (replicate 1000 (1700000002000 :: int, proofEntropy0, snd (fst unlimitedLicense),
        fst (fst unlimitedLicense), quotaRequest))) = 1000"
    by (simp_all add: unlimited_fields DEFAULT_CONFIG_def list_all_iff)
  note run = generateProofs_exhaust [OF ceiling unlimited_fields(2) calls len, of platformCrypto]
  show "maxProofsPerHour (config exhaustedUnlimitedEngine) = 1000"
    "(case proofCounts exhaustedUnlimitedEngine (commitmentId (fst (fst unlimitedLicense))) of
        None \<Rightarrow> 0 | Some n \<Rightarrow> n) = 1000"
    "proofCountReset exhaustedUnlimitedEngine = 1700000000000"
    unfolding exhaustedUnlimitedEngine_def
    by (simp_all add: run(2,3,4) unlimited_fields DEFAULT_CONFIG_def)
qed

text \<open>
  Claim C10 (the unlimited tier and usage-quota proofs), refuted as stated. The claim is
  that for a license of the unlimited tier, whose quota is \<open>- 1\<close>, \<^verbatim>\<open>generateProof\<close>
  throws the insufficient-quota error for every required quota from 0 on. On the engine
  that has served a thousand calls for the unlimited license within the hour, a request
  for 10 units fails with \<^verbatim>\<open>Rate limit exceeded\<close>.
\<close>

theorem unlimited_quota_request_rate_limited:
  "usageQuota (witnessData (snd (fst unlimitedLicense))) = - 1 \<and>
   usedQuota (witnessData (snd (fst unlimitedLicense))) = 0 \<and>
   req_proofType quotaRequest = UsageQuota \<and>
   requiredQuota (requirements quotaRequest) = Some 10 \<and>
   fst (generateProof platformCrypto exhaustedUnlimitedEngine 1700000002000 proofEntropy0
          (snd (fst unlimitedLicense)) (fst (fst unlimitedLicense)) quotaRequest)
     = Inl RateLimitExceeded"
proof -
  have "1700000002000 - proofCountReset exhaustedUnlimitedEngine \<le> 3600000"
    by (simp add: exhaustedUnlimitedEngine_fields)
  then have "generateProof platformCrypto exhaustedUnlimitedEngine 1700000002000 proofEntropy0
      (snd (fst unlimitedLicense)) (fst (fst unlimitedLicense)) quotaRequest
      = (Inl RateLimitExceeded, exhaustedUnlimitedEngine)"
    by (rule generateProof_exhausted [OF exhaustedUnlimitedEngine_fields(1,2)])
  then show ?thesis
    by (simp add: unlimitedLicense_def createLicense_witness engine0_config DEFAULT_CONFIG_def
        defaultTierLimits_def request_fields)
qed

text \<open>
  Claim C10, amended. Under the default configuration a license created for the unlimited
  tier never yields a usage-quota proof: its quota is \<open>- 1\<close> and nothing is used, so the
  remaining quota \<open>- 1\<close> is below every required quota from 0 on, and \<^verbatim>\<open>generateProof\<close>
  throws \<^verbatim>\<open>Insufficient quota\<close> when the limiter admits the call and
  \<^verbatim>\<open>Rate limit exceeded\<close> when it does not, on every engine and with every commitment.
\<close>

theorem unlimited_license_no_quota_proof:
  assumes "config st0 = DEFAULT_CONFIG"
    and "req_proofType request = UsageQuota"
    and "requiredQuota (requirements request) = Some rq"
    and "0 \<le> rq"
  shows "fst (generateProof K st now E (snd (fst (createLicense K0 st0 now0 E0 Unlimited d))) cm request)
       = Inl (if fst (checkRateLimit st now (commitmentId cm)) = Inr ()
              then InsufficientQuota else RateLimitExceeded)"
proof -
  let ?secret = "snd (fst (createLicense K0 st0 now0 E0 Unlimited d))"
  have quota: "usageQuota (witnessData ?secret) = - 1" "usedQuota (witnessData ?secret) = 0"
    by (simp_all add: createLicense_witness assms(1) DEFAULT_CONFIG_def defaultTierLimits_def)
  have "numberSub (usageQuota (witnessData ?secret)) (usedQuota (witnessData ?secret)) = Finite (- 1)"
    by (simp add: quota numberSub_exact)
  then have "numberLess (numberSub (usageQuota (witnessData ?secret)) (usedQuota (witnessData ?secret))) rq"
    using assms(4) by simp
  then have "generateByType K (config st) E ?secret cm request (randomBytesHex 16 (pe_nonce E))
      = Inl InsufficientQuota"
    by (rule unsatisfied_quota [OF assms(2,3)])
  then show ?thesis by (rule generateProof_error)
qed

theorem unlimited_license_no_quota_proof_witness:
  "config engine0 = DEFAULT_CONFIG \<and>
   req_proofType quotaRequest = UsageQuota \<and>
   requiredQuota (requirements quotaRequest) = Some 10 \<and>
   (0::int) \<le> 10 \<and>
   fst (generateProof platformCrypto (snd unlimitedLicense) 1700000002000 proofEntropy0
          (snd (fst unlimitedLicense)) (fst (fst unlimitedLicense)) quotaRequest)
     = Inl InsufficientQuota"
proof -
  have "fst (checkRateLimit (snd unlimitedLicense) 1700000002000
      (commitmentId (fst (fst unlimitedLicense)))) = Inr ()"
    by (simp add: checkRateLimit_def Let_def unlimited_fields DEFAULT_CONFIG_def window_elapsed)
  then show ?thesis
    using unlimited_license_no_quota_proof [where ?st0.0 = engine0 and request = quotaRequest
        and rq = 10 and K = platformCrypto and st = "snd unlimitedLicense" and now = 1700000002000
        and E = proofEntropy0 and ?K0.0 = platformCrypto and ?now0.0 = 1700000000000
        and ?E0.0 = licenseEntropy0 and d = 1731536000000 and cm = "fst (fst unlimitedLicense)"]
    by (simp add: engine0_config request_fields unlimitedLicense_def [symmetric])
qed

end
